theory Spec2Isabelle
  imports Complex_Main "HOL-Library.Word"
begin

section \<open>SceneManager.cpp: data model\<close>

text \<open>
  The C++ \<^verbatim>\<open>float\<close> components of colours, vectors and matrices are modelled as
  real numbers: rounding is not modelled, so a statement about a matrix entry is a
  statement about the exactly computed value.
\<close>

type_synonym vec2 = "real \<times> real"
type_synonym vec3 = "real \<times> real \<times> real"
type_synonym vec4 = "real \<times> real \<times> real \<times> real"

text \<open>A \<^verbatim>\<open>glm::mat4\<close> is column-major: four columns, each a \<^verbatim>\<open>glm::vec4\<close>.\<close>

type_synonym mat4 = "vec4 \<times> vec4 \<times> vec4 \<times> vec4"

text \<open>
  Modelled from the spec: \<^verbatim>\<open>SceneManager.h\<close>, which declares the structures
  \<^verbatim>\<open>TEXTURE_INFO\<close> and \<^verbatim>\<open>OBJECT_MATERIAL\<close> and the members of the class, is not
  among the sources. The fields below are the ones \<^verbatim>\<open>SceneManager.cpp\<close> reads and
  writes; the texture array has the 16 entries the constructor initialises (the
  spec's "fixed capacity (16 slots/units)"). \<^verbatim>\<open>ID\<close> is a \<^verbatim>\<open>GLuint\<close>
  (\<^verbatim>\<open>glGenTextures\<close> writes through its address).
\<close>

record TEXTURE_INFO =
  ID :: "32 word"
  tag :: string

record OBJECT_MATERIAL =
  diffuseColor :: vec3
  specularColor :: vec3
  shininess :: real
  tag :: string

text \<open>
  \<^verbatim>\<open>m_pShaderManager\<close> is either \<^verbatim>\<open>NULL\<close> or the address of the one external
  uniform sink.
\<close>

datatype ShaderManager_ptr = NULL | ShaderManager

text \<open>
  Every call the scene manager makes to an external collaborator (the image decoder,
  the graphics library, the uniform sink, the mesh provider), with the arguments it
  passes. \<^verbatim>\<open>DrawCylinderMesh\<close> and \<^verbatim>\<open>DrawTaperedCylinderMesh\<close> carry their three
  orientation flags, or \<open>None\<close> where the source leaves them to the defaults of
  \<^verbatim>\<open>ShapeMeshes.h\<close>.
\<close>

datatype call =
    StbiSetFlipVerticallyOnLoad bool
  | StbiImageFree
  | GlGenTextures "32 word"
  | GlBindTexture "32 word"
  | GlTexParameteri string string
  | GlTexImage2D string int int string
  | GlGenerateMipmap
  | GlActiveTexture int
  | SetMat4Value string mat4
  | SetIntValue string int
  | SetVec4Value string vec4
  | SetSampler2DValue string int
  | SetVec2Value string vec2
  | SetVec3Value string vec3
  | SetFloatValue string real
  | SetBoolValue string bool
  | LoadPlaneMesh
  | LoadBoxMesh
  | LoadSphereMesh
  | LoadConeMesh
  | LoadCylinderMesh
  | LoadTaperedCylinderMesh
  | LoadPyramid4Mesh
  | DrawBoxMesh
  | DrawPyramid4Mesh
  | DrawCylinderMesh "(bool \<times> bool \<times> bool) option"
  | DrawTaperedCylinderMesh "(bool \<times> bool \<times> bool) option"
  | DrawConeMesh
  | DrawHalfSphereMesh
  | DrawPlaneMesh
  | DrawSphereMesh

text \<open>
  The members of the class. \<^verbatim>\<open>m_basicMeshes\<close> is left out: the constructor
  allocates it and only the destructor releases it, so it is a valid object in
  every method call.
\<close>

record SceneManager =
  m_pShaderManager :: ShaderManager_ptr
  m_textureIDs :: "TEXTURE_INFO list"
  m_loadedTextures :: int
  m_objectMaterials :: "OBJECT_MATERIAL list"

text \<open>
  The scene manager together with what lies outside it: the texture names the
  graphics context currently holds (a name enters the list when it is generated and
  would leave it when it is deleted), and the ordered log of the calls made to the
  external collaborators. Console output is not modelled.
\<close>

record world = SceneManager +
  gl_textures :: "32 word list"
  calls :: "call list"

text \<open>
  Undefined behaviour of the C++ (a write past the end of the texture array, a call
  through a null pointer) is a fault: the model stops there.
\<close>

datatype fault = ArrayOutOfBounds | NullDereference

text \<open>What \<^verbatim>\<open>stbi_load\<close> hands back: a null pointer, or an image with its
  width, height and channel count.\<close>

datatype stbi_result = LoadFailed | Loaded int int int

section \<open>The GLM functions the transform composer calls\<close>

text \<open>
  GLM is an external header library. The definitions follow its implementation of
  \<^verbatim>\<open>radians\<close>, \<^verbatim>\<open>scale\<close>, \<^verbatim>\<open>translate\<close>, \<^verbatim>\<open>rotate\<close> (applied to the
  identity matrix, as \<^verbatim>\<open>glm/gtx/transform.hpp\<close> does) and of the product of two
  matrices.
\<close>

fun vec4_scale :: "real \<Rightarrow> vec4 \<Rightarrow> vec4" where
  "vec4_scale k (x, y, z, t) = (k * x, k * y, k * z, k * t)"

fun vec4_add :: "vec4 \<Rightarrow> vec4 \<Rightarrow> vec4" where
  "vec4_add (x, y, z, t) (x', y', z', t') = (x + x', y + y', z + z', t + t')"

fun mat4_mul_vec4 :: "mat4 \<Rightarrow> vec4 \<Rightarrow> vec4" where
  "mat4_mul_vec4 (c0, c1, c2, c3) (x, y, z, t) =
     vec4_add (vec4_add (vec4_add (vec4_scale x c0) (vec4_scale y c1)) (vec4_scale z c2))
       (vec4_scale t c3)"

fun mat4_mul :: "mat4 \<Rightarrow> mat4 \<Rightarrow> mat4" where
  "mat4_mul m (b0, b1, b2, b3) =
     (mat4_mul_vec4 m b0, mat4_mul_vec4 m b1, mat4_mul_vec4 m b2, mat4_mul_vec4 m b3)"

definition glm_radians :: "real \<Rightarrow> real" where
  "glm_radians degrees = degrees * (pi / 180)"

fun glm_scale :: "vec3 \<Rightarrow> mat4" where
  "glm_scale (x, y, z) = ((x, 0, 0, 0), (0, y, 0, 0), (0, 0, z, 0), (0, 0, 0, 1))"

fun glm_translate :: "vec3 \<Rightarrow> mat4" where
  "glm_translate (x, y, z) = ((1, 0, 0, 0), (0, 1, 0, 0), (0, 0, 1, 0), (x, y, z, 1))"

fun glm_normalize :: "vec3 \<Rightarrow> vec3" where
  "glm_normalize (x, y, z) =
     (let n = sqrt (x * x + y * y + z * z) in (x / n, y / n, z / n))"

fun glm_rotate :: "real \<Rightarrow> vec3 \<Rightarrow> mat4" where
  "glm_rotate angle v =
     (let c = cos angle; s = sin angle;
          (ax, ay, az) = glm_normalize v;
          (tx, ty, tz) = ((1 - c) * ax, (1 - c) * ay, (1 - c) * az)
      in ((c + tx * ax, tx * ay + s * az, tx * az - s * ay, 0),
          (ty * ax - s * az, c + ty * ay, ty * az + s * ax, 0),
          (tz * ax + s * ay, tz * ay - s * ax, c + tz * az, 0),
          (0, 0, 0, 1)))"

section \<open>The texture registry\<close>

text \<open>
  \<^verbatim>\<open>glGenTextures(1, &id)\<close> stores a texture name that is not in use. Which one is
  the graphics library's choice; the model takes one above every name in use.
\<close>

definition glGenTextures_name :: "32 word list \<Rightarrow> 32 word" where
  "glGenTextures_name live = foldr max live 0 + 1"

text \<open>The constructor: 16 entries tagged \<^verbatim>\<open>"/0"\<close> with ID \<open>-1\<close>, none loaded.\<close>

definition SceneManager_ctor :: "ShaderManager_ptr \<Rightarrow> 32 word list \<Rightarrow> call list \<Rightarrow> world" where
  "SceneManager_ctor pShaderManager live cs =
     \<lparr> m_pShaderManager = pShaderManager,
       m_textureIDs = replicate 16 \<lparr> ID = - 1, tag = ''/0'' \<rparr>,
       m_loadedTextures = 0,
       m_objectMaterials = [],
       gl_textures = live,
       calls = cs \<rparr>"

text \<open>
  \<^verbatim>\<open>CreateGLTexture\<close>. The decoder is a parameter: \<open>stbi_load filename\<close> is what
  decoding the file at that path gives. The write to
  \<^verbatim>\<open>m_textureIDs[m_loadedTextures]\<close> has no bounds check in the source; outside
  the array it is the fault \<open>ArrayOutOfBounds\<close>.
\<close>

definition CreateGLTexture ::
  "(string \<Rightarrow> stbi_result) \<Rightarrow> string \<Rightarrow> string \<Rightarrow> world \<Rightarrow> fault + (bool \<times> world)" where
  "CreateGLTexture stbi_load filename tg w =
     (let w0 = w\<lparr>calls := calls w @ [StbiSetFlipVerticallyOnLoad True]\<rparr> in
      case stbi_load filename of
        LoadFailed \<Rightarrow> Inr (False, w0)
      | Loaded width height colorChannels \<Rightarrow>
          (let textureID = glGenTextures_name (gl_textures w0);
               w1 = w0\<lparr>gl_textures := gl_textures w0 @ [textureID],
                       calls := calls w0 @
                         [GlGenTextures textureID, GlBindTexture textureID,
                          GlTexParameteri ''GL_TEXTURE_WRAP_S'' ''GL_REPEAT'',
                          GlTexParameteri ''GL_TEXTURE_WRAP_T'' ''GL_REPEAT'',
                          GlTexParameteri ''GL_TEXTURE_MIN_FILTER'' ''GL_LINEAR'',
                          GlTexParameteri ''GL_TEXTURE_MAG_FILTER'' ''GL_LINEAR'']\<rparr>
           in if colorChannels = 3 \<or> colorChannels = 4 then
                (let upload =
                       (if colorChannels = 3
                        then GlTexImage2D ''GL_RGB8'' width height ''GL_RGB''
                        else GlTexImage2D ''GL_RGBA8'' width height ''GL_RGBA'');
                     w2 = w1\<lparr>calls := calls w1 @
                            [upload, GlGenerateMipmap, StbiImageFree, GlBindTexture 0]\<rparr>;
                     i = m_loadedTextures w2
                 in if 0 \<le> i \<and> i < int (length (m_textureIDs w2))
                    then Inr (True,
                           w2\<lparr>m_textureIDs :=
                                 (m_textureIDs w2)[nat i := \<lparr> ID = textureID, tag = tg \<rparr>],
                               m_loadedTextures := i + 1\<rparr>)
                    else Inl ArrayOutOfBounds)
              else Inr (False, w1)))"

text \<open>A sequence of \<^verbatim>\<open>CreateGLTexture(filename, tag)\<close> calls, as
  \<^verbatim>\<open>LoadSceneTextures\<close> makes them one after the other; the result lists what each
  call returned.\<close>

fun CreateGLTexture_calls ::
  "(string \<Rightarrow> stbi_result) \<Rightarrow> (string \<times> string) list \<Rightarrow> world \<Rightarrow> fault + (bool list \<times> world)" where
  "CreateGLTexture_calls stbi_load [] w = Inr ([], w)"
| "CreateGLTexture_calls stbi_load ((filename, tg) # rest) w =
     (case CreateGLTexture stbi_load filename tg w of
        Inl e \<Rightarrow> Inl e
      | Inr (b, w') \<Rightarrow>
          (case CreateGLTexture_calls stbi_load rest w' of
             Inl e \<Rightarrow> Inl e
           | Inr (bs, w'') \<Rightarrow> Inr (b # bs, w'')))"

text \<open>\<^verbatim>\<open>BindGLTextures\<close>: the loop \<^verbatim>\<open>for (i = 0; i < m_loadedTextures; i++)\<close>;
  \<open>GlActiveTexture i\<close> stands for \<^verbatim>\<open>glActiveTexture(GL_TEXTURE0 + i)\<close>.\<close>

function BindGLTextures_loop :: "int \<Rightarrow> world \<Rightarrow> fault + world" where
  "BindGLTextures_loop i w =
     (if i < m_loadedTextures w then
        (if 0 \<le> i \<and> i < int (length (m_textureIDs w)) then
           BindGLTextures_loop (i + 1)
             (w\<lparr>calls := calls w @
                  [GlActiveTexture i, GlBindTexture (ID (m_textureIDs w ! nat i))]\<rparr>)
         else Inl ArrayOutOfBounds)
      else Inr w)"
  by pat_completeness auto
termination
  by (relation "measure (\<lambda>(i, w). nat (m_loadedTextures w - i))") auto

declare BindGLTextures_loop.simps [simp del]

definition BindGLTextures :: "world \<Rightarrow> fault + world" where
  "BindGLTextures w = BindGLTextures_loop 0 w"

text \<open>
  \<^verbatim>\<open>DestroyGLTextures\<close>. The loop body of the source is
  \<^verbatim>\<open>glGenTextures(1, &m_textureIDs[i].ID); m_textureIDs[i].ID = 0;\<close>: it generates
  a name into the entry and then clears the entry.
\<close>

function DestroyGLTextures_loop :: "int \<Rightarrow> world \<Rightarrow> fault + world" where
  "DestroyGLTextures_loop i w =
     (if i < m_loadedTextures w then
        (if 0 \<le> i \<and> i < int (length (m_textureIDs w)) then
           (let name = glGenTextures_name (gl_textures w);
                w1 = w\<lparr>gl_textures := gl_textures w @ [name],
                       calls := calls w @ [GlGenTextures name],
                       m_textureIDs :=
                         (m_textureIDs w)[nat i := (m_textureIDs w ! nat i)\<lparr>ID := name\<rparr>]\<rparr>;
                w2 = w1\<lparr>m_textureIDs :=
                         (m_textureIDs w1)[nat i := (m_textureIDs w1 ! nat i)\<lparr>ID := 0\<rparr>]\<rparr>
            in DestroyGLTextures_loop (i + 1) w2)
         else Inl ArrayOutOfBounds)
      else Inr w)"
  by pat_completeness auto
termination
  by (relation "measure (\<lambda>(i, w). nat (m_loadedTextures w - i))") auto

declare DestroyGLTextures_loop.simps [simp del]

definition DestroyGLTextures :: "world \<Rightarrow> fault + world" where
  "DestroyGLTextures w =
     (case DestroyGLTextures_loop 0 w of
        Inl e \<Rightarrow> Inl e
      | Inr w' \<Rightarrow> Inr (w'\<lparr>m_loadedTextures := 0\<rparr>))"

text \<open>
  \<^verbatim>\<open>FindTextureID\<close> and \<^verbatim>\<open>FindTextureSlot\<close>: the scan
  \<^verbatim>\<open>while ((index < m_loadedTextures) && (bFound == false))\<close>, which stops at the
  first entry whose tag compares equal and otherwise ends with the initial \<open>-1\<close>.
  \<^verbatim>\<open>FindTextureID\<close> returns the \<^verbatim>\<open>GLuint\<close> converted to \<^verbatim>\<open>int\<close>.
\<close>

function FindTextureID_loop :: "world \<Rightarrow> string \<Rightarrow> int \<Rightarrow> fault + int" where
  "FindTextureID_loop w tg index =
     (if index < m_loadedTextures w then
        (if 0 \<le> index \<and> index < int (length (m_textureIDs w)) then
           (if TEXTURE_INFO.tag (m_textureIDs w ! nat index) = tg
            then Inr (sint (ID (m_textureIDs w ! nat index)))
            else FindTextureID_loop w tg (index + 1))
         else Inl ArrayOutOfBounds)
      else Inr (- 1))"
  by pat_completeness auto
termination
  by (relation "measure (\<lambda>(w, tg, index). nat (m_loadedTextures w - index))") auto

declare FindTextureID_loop.simps [simp del]

definition FindTextureID :: "string \<Rightarrow> world \<Rightarrow> fault + int" where
  "FindTextureID tg w = FindTextureID_loop w tg 0"

function FindTextureSlot_loop :: "world \<Rightarrow> string \<Rightarrow> int \<Rightarrow> fault + int" where
  "FindTextureSlot_loop w tg index =
     (if index < m_loadedTextures w then
        (if 0 \<le> index \<and> index < int (length (m_textureIDs w)) then
           (if TEXTURE_INFO.tag (m_textureIDs w ! nat index) = tg
            then Inr index
            else FindTextureSlot_loop w tg (index + 1))
         else Inl ArrayOutOfBounds)
      else Inr (- 1))"
  by pat_completeness auto
termination
  by (relation "measure (\<lambda>(w, tg, index). nat (m_loadedTextures w - index))") auto

declare FindTextureSlot_loop.simps [simp del]

definition FindTextureSlot :: "string \<Rightarrow> world \<Rightarrow> fault + int" where
  "FindTextureSlot tg w = FindTextureSlot_loop w tg 0"

section \<open>The material registry\<close>

text \<open>
  \<^verbatim>\<open>FindMaterial\<close> writes the three fields of the caller's \<^verbatim>\<open>material\<close> when a
  tag matches and returns \<^verbatim>\<open>true\<close> after the scan whether or not one did; only
  an empty registry gives \<^verbatim>\<open>false\<close>. The comparison
  \<^verbatim>\<open>index < m_objectMaterials.size()\<close> is unsigned.
\<close>

function FindMaterial_loop ::
  "OBJECT_MATERIAL list \<Rightarrow> string \<Rightarrow> int \<Rightarrow> OBJECT_MATERIAL \<Rightarrow> OBJECT_MATERIAL" where
  "FindMaterial_loop ms tg index material =
     (if 0 \<le> index \<and> index < int (length ms) then
        (if OBJECT_MATERIAL.tag (ms ! nat index) = tg
         then material\<lparr>diffuseColor := diffuseColor (ms ! nat index),
                       specularColor := specularColor (ms ! nat index),
                       shininess := shininess (ms ! nat index)\<rparr>
         else FindMaterial_loop ms tg (index + 1) material)
      else material)"
  by pat_completeness auto
termination
  by (relation "measure (\<lambda>(ms, tg, index, material). nat (int (length ms) - index))") auto

declare FindMaterial_loop.simps [simp del]

definition FindMaterial :: "string \<Rightarrow> OBJECT_MATERIAL \<Rightarrow> world \<Rightarrow> bool \<times> OBJECT_MATERIAL" where
  "FindMaterial tg material w =
     (if length (m_objectMaterials w) = 0 then (False, material)
      else (True, FindMaterial_loop (m_objectMaterials w) tg 0 material))"

definition DefineObjectMaterials :: "world \<Rightarrow> world" where
  "DefineObjectMaterials w =
     w\<lparr>m_objectMaterials := m_objectMaterials w @
         [\<lparr> diffuseColor = (0.4, 0.4, 0.4), specularColor = (1, 1, 1),
             shininess = 128, tag = ''shinier'' \<rparr>,
          \<lparr> diffuseColor = (0.3, 0.3, 0.4), specularColor = (0, 0, 0),
             shininess = 0.05, tag = ''matte'' \<rparr>,
          \<lparr> diffuseColor = (0.4, 0.4, 0.4), specularColor = (1, 1, 1),
             shininess = 256, tag = ''gold'' \<rparr>,
          \<lparr> diffuseColor = (0.1, 0.2, 0.3), specularColor = (1, 1, 1),
             shininess = 256, tag = ''glass'' \<rparr>]\<rparr>"

section \<open>The transform composer and the resource binder\<close>

text \<open>The local \<^verbatim>\<open>modelView\<close> of \<^verbatim>\<open>SetTransformations\<close>:
  \<^verbatim>\<open>translation * rotationZ * rotationY * rotationX * scale\<close>.\<close>

definition modelView :: "vec3 \<Rightarrow> real \<Rightarrow> real \<Rightarrow> real \<Rightarrow> vec3 \<Rightarrow> mat4" where
  "modelView scaleXYZ XrotationDegrees YrotationDegrees ZrotationDegrees positionXYZ =
     (let scale = glm_scale scaleXYZ;
          rotationX = glm_rotate (glm_radians XrotationDegrees) (1, 0, 0);
          rotationY = glm_rotate (glm_radians YrotationDegrees) (0, 1, 0);
          rotationZ = glm_rotate (glm_radians ZrotationDegrees) (0, 0, 1);
          translation = glm_translate positionXYZ
      in mat4_mul (mat4_mul (mat4_mul (mat4_mul translation rotationZ) rotationY) rotationX)
           scale)"

definition SetTransformations ::
  "vec3 \<Rightarrow> real \<Rightarrow> real \<Rightarrow> real \<Rightarrow> vec3 \<Rightarrow> world \<Rightarrow> fault + world" where
  "SetTransformations scaleXYZ XrotationDegrees YrotationDegrees ZrotationDegrees positionXYZ w =
     (if m_pShaderManager w \<noteq> NULL
      then Inr (w\<lparr>calls := calls w @
             [SetMat4Value ''model''
                (modelView scaleXYZ XrotationDegrees YrotationDegrees ZrotationDegrees
                   positionXYZ)]\<rparr>)
      else Inr w)"

text \<open>\<^verbatim>\<open>setIntValue(g_UseTextureName, false)\<close> passes the \<^verbatim>\<open>bool\<close> as the
  integer 0, and \<^verbatim>\<open>true\<close> as 1.\<close>

definition SetShaderColor :: "real \<Rightarrow> real \<Rightarrow> real \<Rightarrow> real \<Rightarrow> world \<Rightarrow> fault + world" where
  "SetShaderColor redColorValue greenColorValue blueColorValue alphaValue w =
     (let currentColor = (redColorValue, greenColorValue, blueColorValue, alphaValue) in
      if m_pShaderManager w \<noteq> NULL
      then Inr (w\<lparr>calls := calls w @
             [SetIntValue ''bUseTexture'' 0, SetVec4Value ''objectColor'' currentColor]\<rparr>)
      else Inr w)"

definition SetShaderTexture :: "string \<Rightarrow> world \<Rightarrow> fault + world" where
  "SetShaderTexture textureTag w =
     (if m_pShaderManager w \<noteq> NULL then
        (let w1 = w\<lparr>calls := calls w @ [SetIntValue ''bUseTexture'' 1]\<rparr> in
         case FindTextureSlot textureTag w1 of
           Inl e \<Rightarrow> Inl e
         | Inr textureID \<Rightarrow>
             Inr (w1\<lparr>calls := calls w1 @ [SetSampler2DValue ''objectTexture'' textureID]\<rparr>))
      else Inr w)"

definition SetTextureUVScale :: "real \<Rightarrow> real \<Rightarrow> world \<Rightarrow> fault + world" where
  "SetTextureUVScale u v w =
     (if m_pShaderManager w \<noteq> NULL
      then Inr (w\<lparr>calls := calls w @ [SetVec2Value ''UVscale'' (u, v)]\<rparr>)
      else Inr w)"

text \<open>
  \<^verbatim>\<open>SetShaderMaterial\<close> declares \<^verbatim>\<open>OBJECT_MATERIAL material;\<close> without an
  initialiser, so the colours and the shininess of the local start with whatever the
  stack holds: the parameter \<open>uninit\<close>. The three setters are called through
  \<^verbatim>\<open>m_pShaderManager\<close> without the null check the other binder methods make.
\<close>

definition SetShaderMaterial :: "OBJECT_MATERIAL \<Rightarrow> string \<Rightarrow> world \<Rightarrow> fault + world" where
  "SetShaderMaterial uninit materialTag w =
     (if length (m_objectMaterials w) > 0 then
        (let (bReturn, material) = FindMaterial materialTag uninit w in
         if bReturn = True then
           (if m_pShaderManager w = NULL then Inl NullDereference
            else Inr (w\<lparr>calls := calls w @
                   [SetVec3Value ''material.diffuseColor'' (diffuseColor material),
                    SetVec3Value ''material.specularColor'' (specularColor material),
                    SetFloatValue ''material.shininess'' (shininess material)]\<rparr>))
         else Inr w)
      else Inr w)"

section \<open>The render phase\<close>

text \<open>Consecutive statements: the next one runs in the state the previous one left,
  and nothing runs after a fault.\<close>

fun seq :: "(world \<Rightarrow> fault + world) list \<Rightarrow> world \<Rightarrow> fault + world" where
  "seq [] w = Inr w"
| "seq (f # fs) w = (case f w of Inl e \<Rightarrow> Inl e | Inr w' \<Rightarrow> seq fs w')"

definition m_basicMeshes_draw :: "call \<Rightarrow> world \<Rightarrow> fault + world" where
  "m_basicMeshes_draw c w = Inr (w\<lparr>calls := calls w @ [c]\<rparr>)"

text \<open>
  \<^verbatim>\<open>RenderScene\<close>, statement by statement. \<open>uninit k\<close> is the indeterminate
  initial content of the local material of the \<open>k\<close>-th \<^verbatim>\<open>SetShaderMaterial\<close> call.
\<close>

definition RenderScene :: "(nat \<Rightarrow> OBJECT_MATERIAL) \<Rightarrow> world \<Rightarrow> fault + world" where
  "RenderScene uninit =
     seq
      [BindGLTextures,
       SetTransformations (9.5, 0.5, 5.5) 0 0 0 (- 1, - 0.9, 6),
       SetShaderTexture ''planeTexture'',
       SetShaderMaterial (uninit 0) ''matte'',
       m_basicMeshes_draw DrawBoxMesh,
       SetTransformations (1.5, 1.7, 1.5) 0 45 0 (2, 0.2, 5),
       SetShaderTexture ''redTexture'',
       SetShaderMaterial (uninit 1) ''shinier'',
       m_basicMeshes_draw DrawBoxMesh,
       SetTransformations (1.5, 1.5, 1.5) 0 45 0 (2, 1.8, 5),
       SetShaderTexture ''midTexture'',
       SetShaderMaterial (uninit 2) ''shinier'',
       m_basicMeshes_draw DrawPyramid4Mesh,
       SetTransformations (1, 0.8, 1) 0 45 0 (2, 1.9, 5),
       SetShaderTexture ''topTexture'',
       SetShaderMaterial (uninit 3) ''shinier'',
       m_basicMeshes_draw DrawBoxMesh,
       SetTransformations (0.7, 0.4, 0.7) 0 45 0 (2, 2.3, 5),
       SetShaderTexture ''corkTexture'',
       SetShaderMaterial (uninit 4) ''matte'',
       m_basicMeshes_draw DrawBoxMesh,
       SetTransformations (0.7, 1.2, 0.7) 0 45 0 (2.5, - 0.6, 7.4),
       SetShaderTexture ''cupTexture'',
       SetShaderMaterial (uninit 5) ''gold'',
       m_basicMeshes_draw (DrawCylinderMesh (Some (False, True, True))),
       SetTransformations (0.9, 1, 0.9) 0 0 0 (- 0.9, - 0.7, 5.3),
       SetShaderTexture ''pot2'',
       SetShaderMaterial (uninit 6) ''shinier'',
       m_basicMeshes_draw (DrawCylinderMesh (Some (False, True, True))),
       SetTransformations (0.9, 2.8, 0.9) 0 0 0 (- 0.9, 0.2, 5.3),
       SetShaderTexture ''pot2'',
       SetShaderMaterial (uninit 7) ''shinier'',
       m_basicMeshes_draw (DrawTaperedCylinderMesh (Some (False, False, True))),
       SetTransformations (0.9, 1, 0.9) 180 0 0 (- 0.9, 3.7, 5.3),
       SetShaderTexture ''pot1'',
       SetShaderMaterial (uninit 8) ''matte'',
       m_basicMeshes_draw (DrawTaperedCylinderMesh (Some (False, False, True))),
       SetTransformations (0.4, 0.5, 0.5) (- 78) 0 0 (- 0.9, 2.3, 4.5),
       SetShaderTexture ''gripTexture'',
       SetShaderMaterial (uninit 9) ''matte'',
       m_basicMeshes_draw DrawBoxMesh,
       SetTransformations (0.4, 0.5, 1.6) (- 78) 0 0 (- 0.9, 2, 4.1),
       SetShaderTexture ''gripTexture'',
       SetShaderMaterial (uninit 10) ''matte'',
       m_basicMeshes_draw DrawBoxMesh,
       SetTransformations (0.8, 2.5, 0.8) 0 0 0 (- 2.9, - 0.7, 5.3),
       SetShaderTexture ''bottleTexture'',
       SetShaderMaterial (uninit 11) ''shinier'',
       m_basicMeshes_draw (DrawCylinderMesh None),
       SetTransformations (0.8, 0.5, 0.8) 0 0 0 (- 2.9, 1.8, 5.3),
       SetShaderTexture ''bottleTexture'',
       SetShaderMaterial (uninit 12) ''shinier'',
       m_basicMeshes_draw (DrawTaperedCylinderMesh None),
       SetTransformations (0.4, 0.5, 0.4) 0 0 0 (- 2.9, 2.3, 5.3),
       SetShaderTexture ''bottleTexture'',
       SetShaderMaterial (uninit 13) ''shinier'',
       m_basicMeshes_draw (DrawCylinderMesh (Some (False, True, True))),
       SetTransformations (0.8, 2.5, 0.8) 0 0 0 (- 4.6, 0, 5.3),
       SetShaderTexture ''corkTexture'',
       SetShaderMaterial (uninit 14) ''matte'',
       m_basicMeshes_draw DrawConeMesh,
       SetTransformations (0.8, 0.8, 0.8) 180 0 0 (- 4.6, - 0.02, 5.3),
       SetShaderTexture ''corkTexture'',
       SetShaderMaterial (uninit 15) ''matte'',
       m_basicMeshes_draw DrawHalfSphereMesh,
       SetTransformations (3.8, 0.7, 1.5) 0 0 0 (- 1.5, - 0.5, 7.5),
       SetShaderTexture ''whiteTexture'',
       SetShaderMaterial (uninit 16) ''shinier'',
       m_basicMeshes_draw DrawBoxMesh,
       SetTransformations (0.77, 0.7, 0.77) 0 0 0 (- 3.2, - 0.85, 7.5),
       SetShaderTexture ''whiteTexture'',
       SetShaderMaterial (uninit 17) ''shinier'',
       m_basicMeshes_draw (DrawCylinderMesh None),
       SetTransformations (0.77, 0.7, 0.77) 0 0 0 (0.2, - 0.85, 7.5),
       SetShaderTexture ''whiteTexture'',
       SetShaderMaterial (uninit 18) ''shinier'',
       m_basicMeshes_draw (DrawCylinderMesh None),
       SetTransformations (3.8, 0.3, 1.58) 0 0 0 (- 1.5, 0, 7.5),
       SetShaderTexture ''lidTexture'',
       SetShaderMaterial (uninit 19) ''shinier'',
       m_basicMeshes_draw DrawBoxMesh,
       SetTransformations (0.8, 0.3, 0.8) 0 0 0 (- 3.2, - 0.15, 7.5),
       SetShaderTexture ''lidTexture'',
       SetShaderMaterial (uninit 20) ''shinier'',
       m_basicMeshes_draw (DrawCylinderMesh None),
       SetTransformations (0.8, 0.3, 0.8) 0 0 0 (0.2, - 0.15, 7.5),
       SetShaderTexture ''lidTexture'',
       SetShaderMaterial (uninit 21) ''shinier'',
       m_basicMeshes_draw (DrawCylinderMesh None),
       SetTransformations (0.3, 0.2, 0.3) 0 0 0 (- 1.5, 0.15, 7.5),
       SetShaderTexture ''knobTexture'',
       SetShaderMaterial (uninit 22) ''shinier'',
       m_basicMeshes_draw (DrawCylinderMesh None),
       SetTransformations (11, 0.5, 7) 90 0 0 (- 1, 5.45, - 0.97),
       SetShaderTexture ''wall'',
       SetShaderMaterial (uninit 23) ''matte'',
       m_basicMeshes_draw DrawPlaneMesh,
       SetTransformations (22, 0.5, 15) 0 0 0 (- 1, - 1.4, 6),
       SetShaderTexture ''planeTexture'',
       SetShaderMaterial (uninit 24) ''shinier'',
       m_basicMeshes_draw DrawBoxMesh,
       SetTransformations (0.8, 0.8, 0.8) 0 0 0 (- 5.1, 0, 7.3),
       SetShaderColor 0.1 0.2 0.3 0.8,
       SetShaderMaterial (uninit 25) ''glass'',
       m_basicMeshes_draw DrawSphereMesh]"

section \<open>The setup phase\<close>

text \<open>
  \<^verbatim>\<open>LoadSceneTextures\<close>: fourteen \<^verbatim>\<open>CreateGLTexture\<close> calls, whose return values
  only decide what is printed, then \<^verbatim>\<open>BindGLTextures\<close>.
\<close>

definition LoadSceneTextures :: "(string \<Rightarrow> stbi_result) \<Rightarrow> world \<Rightarrow> fault + world" where
  "LoadSceneTextures stbi_load w =
     (case CreateGLTexture_calls stbi_load
          [(''textures/plane.jpg'', ''planeTexture''),
           (''textures/red.jpg'', ''redTexture''),
           (''textures/circular-gold.jpg'', ''midTexture''),
           (''textures/seamless-gold.jpg'', ''topTexture''),
           (''textures/cork.jpg'', ''corkTexture''),
           (''textures/gold.jpg'', ''cupTexture''),
           (''textures/stone.jpg'', ''bottleTexture''),
           (''textures/copper.jpg'', ''knobTexture''),
           (''textures/white.jpg'', ''whiteTexture''),
           (''textures/white2.jpg'', ''lidTexture''),
           (''textures/grip.jpg'', ''gripTexture''),
           (''textures/pot1.jpg'', ''pot1''),
           (''textures/pot2.jpg'', ''pot2''),
           (''textures/wall.jpg'', ''wall'')] w of
        Inl e \<Rightarrow> Inl e
      | Inr (bs, w') \<Rightarrow> BindGLTextures w')"

text \<open>\<^verbatim>\<open>SetupSceneLights\<close> calls the setters through \<^verbatim>\<open>m_pShaderManager\<close>
  without a null check.\<close>

definition SetupSceneLights :: "world \<Rightarrow> fault + world" where
  "SetupSceneLights w =
     (if m_pShaderManager w = NULL then Inl NullDereference
      else Inr (w\<lparr>calls := calls w @
             [SetBoolValue ''bUseLighting'' True,
              SetVec3Value ''directionalLight.direction'' (- 0.05, - 0.3, - 0.1),
              SetVec3Value ''directionalLight.ambient'' (0.05, 0.05, 0.05),
              SetVec3Value ''directionalLight.diffuse'' (0.6, 0.6, 0.6),
              SetVec3Value ''directionalLight.specular'' (0, 0, 0),
              SetBoolValue ''directionalLight.bActive'' True,
              SetVec3Value ''pointLights[0].position'' (- 4, 8, 0),
              SetVec3Value ''pointLights[0].ambient'' (0.05, 0.05, 0.05),
              SetVec3Value ''pointLights[0].diffuse'' (0.3, 0.3, 0.3),
              SetVec3Value ''pointLights[0].specular'' (0.1, 0.1, 0.1),
              SetBoolValue ''pointLights[0].bActive'' True,
              SetVec3Value ''pointLights[1].position'' (4, 8, 0),
              SetVec3Value ''pointLights[1].ambient'' (0.05, 0.05, 0.05),
              SetVec3Value ''pointLights[1].diffuse'' (0.3, 0.3, 0.3),
              SetVec3Value ''pointLights[1].specular'' (0.1, 0.1, 0.1),
              SetBoolValue ''pointLights[1].bActive'' True,
              SetVec3Value ''pointLights[2].position'' (3.8, 5.5, 4),
              SetVec3Value ''pointLights[2].ambient'' (0.05, 0.05, 0.05),
              SetVec3Value ''pointLights[2].diffuse'' (0.2, 0.2, 0.2),
              SetVec3Value ''pointLights[2].specular'' (0.8, 0.8, 0.8),
              SetBoolValue ''pointLights[2].bActive'' True,
              SetVec3Value ''pointLights[3].position'' (3.8, 3.5, 4),
              SetVec3Value ''pointLights[3].ambient'' (0.05, 0.05, 0.05),
              SetVec3Value ''pointLights[3].diffuse'' (0.2, 0.2, 0.2),
              SetVec3Value ''pointLights[3].specular'' (0.8, 0.8, 0.8),
              SetBoolValue ''pointLights[3].bActive'' True,
              SetVec3Value ''pointLights[4].position'' (- 3.2, 6, - 4),
              SetVec3Value ''pointLights[4].ambient'' (0.05, 0.05, 0.05),
              SetVec3Value ''pointLights[4].diffuse'' (0.9, 0.9, 0.9),
              SetVec3Value ''pointLights[4].specular'' (0.1, 0.1, 0.1),
              SetBoolValue ''pointLights[4].bActive'' True,
              SetVec3Value ''spotLight.ambient'' (0.8, 0.8, 0.8),
              SetVec3Value ''spotLight.diffuse'' (1, 1, 1),
              SetVec3Value ''spotLight.specular'' (0.7, 0.7, 0.7),
              SetFloatValue ''spotLight.constant'' 1,
              SetFloatValue ''spotLight.linear'' 0.09,
              SetFloatValue ''spotLight.quadratic'' 0.032,
              SetFloatValue ''spotLight.cutOff'' (cos (glm_radians 42.5)),
              SetFloatValue ''spotLight.outerCutOff'' (cos (glm_radians 48)),
              SetBoolValue ''spotLight.bActive'' True]\<rparr>))"

definition m_basicMeshes_load :: "call \<Rightarrow> world \<Rightarrow> fault + world" where
  "m_basicMeshes_load c w = Inr (w\<lparr>calls := calls w @ [c]\<rparr>)"

text \<open>\<^verbatim>\<open>PrepareScene\<close>: textures, materials, lights, then the meshes (the tapered
  cylinder is loaded twice in the source).\<close>

definition PrepareScene :: "(string \<Rightarrow> stbi_result) \<Rightarrow> world \<Rightarrow> fault + world" where
  "PrepareScene stbi_load =
     seq
      [LoadSceneTextures stbi_load,
       (\<lambda>w. Inr (DefineObjectMaterials w)),
       SetupSceneLights,
       m_basicMeshes_load LoadPlaneMesh,
       m_basicMeshes_load LoadBoxMesh,
       m_basicMeshes_load LoadSphereMesh,
       m_basicMeshes_load LoadConeMesh,
       m_basicMeshes_load LoadCylinderMesh,
       m_basicMeshes_load LoadTaperedCylinderMesh,
       m_basicMeshes_load LoadPyramid4Mesh,
       m_basicMeshes_load LoadTaperedCylinderMesh]"

section \<open>Auxiliary notions for stating the properties\<close>

text \<open>The array has its 16 entries and the count of loaded textures lies within it.\<close>

definition registry_ok :: "world \<Rightarrow> bool" where
  "registry_ok w =
     (length (m_textureIDs w) = 16 \<and> 0 \<le> m_loadedTextures w \<and> m_loadedTextures w \<le> 16)"

text \<open>The tags of the occupied slots, in slot order.\<close>

definition registered_tags :: "world \<Rightarrow> string list" where
  "registered_tags w =
     map TEXTURE_INFO.tag (take (nat (m_loadedTextures w)) (m_textureIDs w))"

text \<open>The position of the first occurrence of a tag in a list, counted from \<open>k\<close>;
  \<open>-1\<close> when there is none.\<close>

fun first_index :: "string \<Rightarrow> string list \<Rightarrow> int \<Rightarrow> int" where
  "first_index tg [] k = - 1"
| "first_index tg (x # xs) k = (if x = tg then k else first_index tg xs (k + 1))"

text \<open>An image that \<^verbatim>\<open>CreateGLTexture\<close> accepts: decoded, with 3 or 4 channels.\<close>

fun decodable :: "stbi_result \<Rightarrow> bool" where
  "decodable LoadFailed = False"
| "decodable (Loaded width height colorChannels) = (colorChannels = 3 \<or> colorChannels = 4)"

text \<open>
  What a method adds to the log of calls, whatever the log held before: \<open>emits f w cs\<close>
  says that, run in the state \<open>w\<close> with any log, \<open>f\<close> returns normally, appends \<open>cs\<close>
  to the log and changes nothing else.
\<close>

definition emits :: "(world \<Rightarrow> fault + world) \<Rightarrow> world \<Rightarrow> call list \<Rightarrow> bool" where
  "emits f w cs = (\<forall>c. f (w\<lparr>calls := c\<rparr>) = Inr (w\<lparr>calls := c @ cs\<rparr>))"

text \<open>The calls one invocation of \<^verbatim>\<open>RenderScene\<close> adds to the log; \<open>None\<close> when it
  faults.\<close>

definition RenderScene_calls :: "(nat \<Rightarrow> OBJECT_MATERIAL) \<Rightarrow> world \<Rightarrow> call list option" where
  "RenderScene_calls uninit w =
     (case RenderScene uninit w of
        Inl e \<Rightarrow> None
      | Inr w' \<Rightarrow> Some (drop (length (calls w)) (calls w')))"

text \<open>The three uniform writes of \<^verbatim>\<open>SetShaderMaterial\<close> for a given material.\<close>

definition material_pushes :: "OBJECT_MATERIAL \<Rightarrow> call list" where
  "material_pushes material =
     [SetVec3Value ''material.diffuseColor'' (diffuseColor material),
      SetVec3Value ''material.specularColor'' (specularColor material),
      SetFloatValue ''material.shininess'' (shininess material)]"

text \<open>The writes for the first material registered under a tag; none for an empty
  registry.\<close>

definition material_calls :: "world \<Rightarrow> string \<Rightarrow> call list" where
  "material_calls w tg =
     (if m_objectMaterials w = [] then []
      else material_pushes (FindMaterial_loop (m_objectMaterials w) tg 0
             \<lparr> diffuseColor = (0, 0, 0), specularColor = (0, 0, 0), shininess = 0,
               tag = [] \<rparr>))"

text \<open>
  The material registry as the render phase finds it: empty (nothing was defined), or
  holding each of the four tags \<^verbatim>\<open>RenderScene\<close> names, with the shader manager
  present. \<^verbatim>\<open>DefineObjectMaterials\<close> defines the four together.
\<close>

definition scene_materials_ok :: "world \<Rightarrow> bool" where
  "scene_materials_ok w =
     (m_objectMaterials w = [] \<or>
      (m_pShaderManager w \<noteq> NULL \<and>
       list_all (\<lambda>tg. tg \<in> OBJECT_MATERIAL.tag ` set (m_objectMaterials w))
         [''matte'', ''shinier'', ''gold'', ''glass'']))"

text \<open>
  The matrices of the spec's formula
  \<^verbatim>\<open>M = Translate(t) . RotateZ(rz) . RotateY(ry) . RotateX(rx) . Scale(s)\<close>, written
  out column by column: the scaling and the translation, and the right-handed
  rotations by an angle in radians about the X, Y and Z axes.
\<close>

definition spec_Scale :: "vec3 \<Rightarrow> mat4" where
  "spec_Scale s = (case s of (sx, sy, sz) \<Rightarrow>
     ((sx, 0, 0, 0), (0, sy, 0, 0), (0, 0, sz, 0), (0, 0, 0, 1)))"

definition spec_Translate :: "vec3 \<Rightarrow> mat4" where
  "spec_Translate t = (case t of (tx, ty, tz) \<Rightarrow>
     ((1, 0, 0, 0), (0, 1, 0, 0), (0, 0, 1, 0), (tx, ty, tz, 1)))"

definition spec_RotateX :: "real \<Rightarrow> mat4" where
  "spec_RotateX a = ((1, 0, 0, 0), (0, cos a, sin a, 0), (0, - sin a, cos a, 0), (0, 0, 0, 1))"

definition spec_RotateY :: "real \<Rightarrow> mat4" where
  "spec_RotateY a = ((cos a, 0, - sin a, 0), (0, 1, 0, 0), (sin a, 0, cos a, 0), (0, 0, 0, 1))"

definition spec_RotateZ :: "real \<Rightarrow> mat4" where
  "spec_RotateZ a = ((cos a, sin a, 0, 0), (- sin a, cos a, 0, 0), (0, 0, 1, 0), (0, 0, 0, 1))"

text \<open>Example values: two different contents of an uninitialised local material.\<close>

definition stack_zeros :: OBJECT_MATERIAL where
  "stack_zeros =
     \<lparr> diffuseColor = (0, 0, 0), specularColor = (0, 0, 0), shininess = 0, tag = [] \<rparr>"

definition stack_ones :: OBJECT_MATERIAL where
  "stack_ones =
     \<lparr> diffuseColor = (1, 1, 1), specularColor = (1, 1, 1), shininess = 1, tag = [] \<rparr>"

section \<open>Texture lookup\<close>

lemma registry_ok_ctor: "registry_ok (SceneManager_ctor p live cs)"
  by (simp add: registry_ok_def SceneManager_ctor_def)

lemma FindTextureSlot_loop_calls [simp]:
  "FindTextureSlot_loop (w\<lparr>calls := c\<rparr>) tg i = FindTextureSlot_loop w tg i"
proof (induction w tg i rule: FindTextureSlot_loop.induct)
  case (1 w tg index)
  show ?case
    apply (subst FindTextureSlot_loop.simps)
    apply (subst (2) FindTextureSlot_loop.simps)
    using 1 by simp
qed

lemma FindTextureSlot_calls [simp]:
  "FindTextureSlot tg (w\<lparr>calls := c\<rparr>) = FindTextureSlot tg w"
  by (simp add: FindTextureSlot_def)

text \<open>On a well-formed registry the scan never leaves the array, and it returns the
  position of the first occupied slot that carries the tag.\<close>

lemma FindTextureSlot_loop_spec:
  "registry_ok w \<Longrightarrow> 0 \<le> i \<Longrightarrow> i \<le> m_loadedTextures w \<Longrightarrow>
   FindTextureSlot_loop w tg i = Inr (first_index tg (drop (nat i) (registered_tags w)) i)"
proof (induction w tg i rule: FindTextureSlot_loop.induct)
  case (1 w tg index)
  show ?case
  proof (cases "index < m_loadedTextures w")
    case True
    with 1(2,3) have inb: "index < int (length (m_textureIDs w))"
        "nat index < length (registered_tags w)"
      by (auto simp: registry_ok_def registered_tags_def)
    have d: "drop (nat index) (registered_tags w) =
       TEXTURE_INFO.tag (m_textureIDs w ! nat index) # drop (nat (index + 1)) (registered_tags w)"
      using inb True 1(3)
      by (simp add: Cons_nth_drop_Suc [symmetric] registered_tags_def nat_add_distrib)
    show ?thesis
      using True inb 1
      by (subst FindTextureSlot_loop.simps) (simp add: d)
  next
    case False
    with 1 have "index = m_loadedTextures w" by simp
    then show ?thesis
      by (subst FindTextureSlot_loop.simps) (simp add: registered_tags_def)
  qed
qed

lemma FindTextureSlot_spec:
  "registry_ok w \<Longrightarrow> FindTextureSlot tg w = Inr (first_index tg (registered_tags w) 0)"
  using FindTextureSlot_loop_spec [of w 0 tg] by (simp add: FindTextureSlot_def registry_ok_def)

lemma first_index_miss: "tg \<notin> set xs \<Longrightarrow> first_index tg xs k = - 1"
  by (induction xs arbitrary: k) auto

lemma first_index_nth:
  "distinct xs \<Longrightarrow> i < length xs \<Longrightarrow> first_index (xs ! i) xs k = k + int i"
proof (induction xs arbitrary: k i)
  case Nil
  then show ?case by simp
next
  case (Cons x xs)
  show ?case
  proof (cases i)
    case 0
    then show ?thesis by simp
  next
    case (Suc j)
    with Cons.prems have "xs ! j \<noteq> x" "j < length xs" "distinct xs" by auto
    with Cons.IH [of j "k + 1"] Suc show ?thesis by simp
  qed
qed

section \<open>Registration\<close>

lemma CreateGLTexture_returns_false:
  assumes "CreateGLTexture stbi_load filename tg w = Inr (False, w')"
  shows "\<not> decodable (stbi_load filename) \<and>
           m_textureIDs w' = m_textureIDs w \<and> m_loadedTextures w' = m_loadedTextures w"
  using assms
  by (cases "stbi_load filename") (auto simp: CreateGLTexture_def Let_def split: if_splits)

lemma CreateGLTexture_success:
  assumes "decodable (stbi_load filename)" "registry_ok w" "m_loadedTextures w < 16"
  shows "\<exists>w'. CreateGLTexture stbi_load filename tg w = Inr (True, w') \<and>
           registry_ok w' \<and> m_loadedTextures w' = m_loadedTextures w + 1 \<and>
           registered_tags w' = registered_tags w @ [tg] \<and>
           m_pShaderManager w' = m_pShaderManager w \<and>
           m_objectMaterials w' = m_objectMaterials w"
proof -
  obtain wd h c where img: "stbi_load filename = Loaded wd h c" and c: "c = 3 \<or> c = 4"
    using assms(1) by (cases "stbi_load filename") auto
  have n: "nat (m_loadedTextures w + 1) = Suc (nat (m_loadedTextures w))"
          "nat (m_loadedTextures w) < length (m_textureIDs w)"
    using assms(2,3) by (auto simp: registry_ok_def)
  show ?thesis
    using assms(2,3) c n
    by (auto simp: CreateGLTexture_def img Let_def registry_ok_def registered_tags_def
        take_Suc_conv_app_nth)
qed

lemma CreateGLTexture_calls_success:
  assumes "list_all (\<lambda>(filename, tg). decodable (stbi_load filename)) rs"
    "registry_ok w" "m_loadedTextures w + int (length rs) \<le> 16"
  shows "\<exists>w'. CreateGLTexture_calls stbi_load rs w = Inr (replicate (length rs) True, w') \<and>
           registry_ok w' \<and> m_loadedTextures w' = m_loadedTextures w + int (length rs) \<and>
           registered_tags w' = registered_tags w @ map snd rs \<and>
           m_pShaderManager w' = m_pShaderManager w \<and>
           m_objectMaterials w' = m_objectMaterials w"
  using assms
proof (induction rs arbitrary: w)
  case Nil
  then show ?case by simp
next
  case (Cons r rs)
  obtain filename tg where r: "r = (filename, tg)" by (cases r)
  from Cons.prems r have d: "decodable (stbi_load filename)" and lt: "m_loadedTextures w < 16"
    by auto
  from CreateGLTexture_success [of stbi_load filename w tg] d Cons.prems(2) lt
  obtain w1 where w1: "CreateGLTexture stbi_load filename tg w = Inr (True, w1)"
    "registry_ok w1" "m_loadedTextures w1 = m_loadedTextures w + 1"
    "registered_tags w1 = registered_tags w @ [tg]"
    "m_pShaderManager w1 = m_pShaderManager w" "m_objectMaterials w1 = m_objectMaterials w"
    by blast
  from Cons.prems have "list_all (\<lambda>(filename, tg). decodable (stbi_load filename)) rs"
    "m_loadedTextures w1 + int (length rs) \<le> 16"
    using w1(3) by auto
  from Cons.IH [OF this(1) w1(2) this(2)]
  obtain w' where w': "CreateGLTexture_calls stbi_load rs w1 = Inr (replicate (length rs) True, w')"
    "registry_ok w'" "m_loadedTextures w' = m_loadedTextures w1 + int (length rs)"
    "registered_tags w' = registered_tags w1 @ map snd rs"
    "m_pShaderManager w' = m_pShaderManager w1" "m_objectMaterials w' = m_objectMaterials w1"
    by blast
  show ?case
    using w1 w' by (simp add: r)
qed

text \<open>
  C4. Starting from a registry with no slot occupied (as the constructor leaves it),
  a sequence of at most 16 \<^verbatim>\<open>CreateGLTexture\<close> calls whose images decode with 3 or
  4 channels and whose tags are pairwise distinct succeeds call by call; afterwards
  \<^verbatim>\<open>FindTextureSlot\<close> returns, for the tag of the \<open>i\<close>-th call, the index \<open>i\<close>
  (counted from 0), and for a tag that was not registered the sentinel \<open>-1\<close>, as a
  normal return value; in each case it is the position of the first match in
  registration order.
\<close>

theorem FindTextureSlot_registration_index:
  assumes "length rs \<le> 16" "distinct (map snd rs)"
    "list_all (\<lambda>(filename, tg). decodable (stbi_load filename)) rs"
    "registry_ok w" "m_loadedTextures w = 0"
  shows "\<exists>w'. CreateGLTexture_calls stbi_load rs w = Inr (replicate (length rs) True, w') \<and>
           (\<forall>i < length rs. FindTextureSlot (snd (rs ! i)) w' = Inr (int i)) \<and>
           (\<forall>tg. tg \<notin> snd ` set rs \<longrightarrow> FindTextureSlot tg w' = Inr (- 1)) \<and>
           (\<forall>tg. FindTextureSlot tg w' = Inr (first_index tg (map snd rs) 0))"
proof -
  from CreateGLTexture_calls_success [OF assms(3,4)] assms(1,5)
  obtain w' where w': "CreateGLTexture_calls stbi_load rs w = Inr (replicate (length rs) True, w')"
    "registry_ok w'" "registered_tags w' = registered_tags w @ map snd rs"
    by auto
  have tags: "registered_tags w' = map snd rs"
    using w'(3) assms(5) by (simp add: registered_tags_def)
  have hit: "FindTextureSlot (snd (rs ! i)) w' = Inr (int i)" if "i < length rs" for i
    using first_index_nth [OF assms(2), of i 0] that
    by (simp add: FindTextureSlot_spec [OF w'(2)] tags)
  have miss: "FindTextureSlot tg w' = Inr (- 1)" if "tg \<notin> snd ` set rs" for tg
    using that by (simp add: FindTextureSlot_spec [OF w'(2)] tags first_index_miss)
  have first: "FindTextureSlot tg w' = Inr (first_index tg (map snd rs) 0)" for tg
    by (simp add: FindTextureSlot_spec [OF w'(2)] tags)
  from w'(1) hit miss first show ?thesis by blast
qed

theorem FindTextureSlot_registration_index_witness:
  "\<exists>w'. CreateGLTexture_calls (\<lambda>f. Loaded 64 64 3)
            [(''textures/red.jpg'', ''redTexture''), (''textures/gold.jpg'', ''cupTexture'')]
            (SceneManager_ctor ShaderManager [] []) = Inr ([True, True], w') \<and>
       FindTextureSlot ''redTexture'' w' = Inr 0 \<and>
       FindTextureSlot ''cupTexture'' w' = Inr 1 \<and>
       FindTextureSlot ''wall'' w' = Inr (- 1)"
proof -
  let ?rs = "[(''textures/red.jpg'', ''redTexture''), (''textures/gold.jpg'', ''cupTexture'')]"
  let ?w = "SceneManager_ctor ShaderManager [] []"
  have h1: "length ?rs \<le> 16" by simp
  have h2: "distinct (map snd ?rs)" by simp
  have h3: "list_all (\<lambda>(filename, tg). decodable ((\<lambda>f. Loaded 64 64 3) filename)) ?rs"
    by simp
  have h4: "registry_ok ?w" by (rule registry_ok_ctor)
  have h5: "m_loadedTextures ?w = 0" by (simp add: SceneManager_ctor_def)
  from FindTextureSlot_registration_index [OF h1 h2 h3 h4 h5]
  obtain w' where
    "CreateGLTexture_calls (\<lambda>f. Loaded 64 64 3) ?rs ?w = Inr (replicate (length ?rs) True, w') \<and>
      (\<forall>i < length ?rs. FindTextureSlot (snd (?rs ! i)) w' = Inr (int i)) \<and>
      (\<forall>tg. tg \<notin> snd ` set ?rs \<longrightarrow> FindTextureSlot tg w' = Inr (- 1)) \<and>
      (\<forall>tg. FindTextureSlot tg w' = Inr (first_index tg (map snd ?rs) 0))" ..
  then have w':
      "CreateGLTexture_calls (\<lambda>f. Loaded 64 64 3) ?rs ?w = Inr (replicate (length ?rs) True, w')"
      "\<forall>i < length ?rs. FindTextureSlot (snd (?rs ! i)) w' = Inr (int i)"
      "\<forall>tg. tg \<notin> snd ` set ?rs \<longrightarrow> FindTextureSlot tg w' = Inr (- 1)"
    by (rule conjunct1, rule conjunct2 [THEN conjunct1],
        rule conjunct2 [THEN conjunct2, THEN conjunct1])
  from w'(2) [rule_format, of 0] w'(2) [rule_format, of 1]
  have a: "FindTextureSlot ''redTexture'' w' = Inr 0" "FindTextureSlot ''cupTexture'' w' = Inr 1"
    by simp_all
  from w'(3) [rule_format, of "''wall''"] have b: "FindTextureSlot ''wall'' w' = Inr (- 1)"
    by simp
  from w'(1) have c: "CreateGLTexture_calls (\<lambda>f. Loaded 64 64 3) ?rs ?w = Inr ([True, True], w')"
    by (simp add: numeral_2_eq_2)
  show ?thesis using a b c by (intro exI [of _ w'] conjI)
qed

text \<open>
  C7. When the image cannot be decoded, or decodes with a channel count other than 3
  and 4, \<^verbatim>\<open>CreateGLTexture\<close> returns \<^verbatim>\<open>false\<close> and the registry is as before: the
  array of entries and the count of occupied slots are unchanged, so no entry was
  appended and no slot consumed.
\<close>

theorem CreateGLTexture_failure_keeps_registry:
  assumes "\<not> decodable (stbi_load filename)"
  shows "\<exists>w'. CreateGLTexture stbi_load filename tg w = Inr (False, w') \<and>
           m_textureIDs w' = m_textureIDs w \<and> m_loadedTextures w' = m_loadedTextures w \<and>
           registered_tags w' = registered_tags w"
  using assms
  by (cases "stbi_load filename") (auto simp: CreateGLTexture_def Let_def registered_tags_def)

theorem CreateGLTexture_failure_keeps_registry_witness:
  "\<not> decodable LoadFailed \<and> \<not> decodable (Loaded 8 8 2) \<and>
   (\<exists>w'. CreateGLTexture (\<lambda>f. LoadFailed) ''textures/none.jpg'' ''none''
            (SceneManager_ctor ShaderManager [] []) = Inr (False, w') \<and>
          m_textureIDs w' = m_textureIDs (SceneManager_ctor ShaderManager [] []) \<and>
          m_loadedTextures w' = m_loadedTextures (SceneManager_ctor ShaderManager [] []) \<and>
          registered_tags w' = registered_tags (SceneManager_ctor ShaderManager [] [])) \<and>
   (\<exists>w'. CreateGLTexture (\<lambda>f. Loaded 8 8 2) ''textures/grey.png'' ''grey''
            (SceneManager_ctor ShaderManager [] []) = Inr (False, w') \<and>
          m_textureIDs w' = m_textureIDs (SceneManager_ctor ShaderManager [] []) \<and>
          m_loadedTextures w' = m_loadedTextures (SceneManager_ctor ShaderManager [] []) \<and>
          registered_tags w' = registered_tags (SceneManager_ctor ShaderManager [] []))"
proof -
  have h1: "\<not> decodable ((\<lambda>f. LoadFailed) ''textures/none.jpg'')" by simp
  have h2: "\<not> decodable ((\<lambda>f. Loaded 8 8 2) ''textures/grey.png'')" by simp
  have d1: "\<not> decodable LoadFailed" and d2: "\<not> decodable (Loaded 8 8 2)" by simp_all
  show ?thesis
    by (intro conjI d1 d2 CreateGLTexture_failure_keeps_registry [OF h1]
        CreateGLTexture_failure_keeps_registry [OF h2])
qed

text \<open>With all 16 slots occupied, a call whose image decodes with 3 or 4 channels
  reaches the write to \<^verbatim>\<open>m_textureIDs[16]\<close>.\<close>

lemma CreateGLTexture_full:
  assumes "decodable (stbi_load filename)" "length (m_textureIDs w) = 16"
    "m_loadedTextures w = 16"
  shows "CreateGLTexture stbi_load filename tg w = Inl ArrayOutOfBounds"
  using assms by (cases "stbi_load filename") (auto simp: CreateGLTexture_def Let_def)

text \<open>
  C1. The spec requires that a call made with 16 slots occupied returns failure and
  leaves the registry unchanged. The source has no capacity check: after 16
  successful calls from the constructor's state, a 17th call with a decodable
  3-channel image does not return \<^verbatim>\<open>false\<close>; it writes past the end of the
  16-entry array.
\<close>

theorem CreateGLTexture_seventeenth_call:
  "\<exists>w. CreateGLTexture_calls (\<lambda>f. Loaded 64 64 3)
          (replicate 16 (''textures/wall.jpg'', ''wall''))
          (SceneManager_ctor ShaderManager [] []) = Inr (replicate 16 True, w) \<and>
       m_loadedTextures w = 16 \<and>
       CreateGLTexture (\<lambda>f. Loaded 64 64 3) ''textures/red.jpg'' ''redTexture'' w =
         Inl ArrayOutOfBounds"
proof -
  let ?rs = "replicate 16 (''textures/wall.jpg'', ''wall'')"
  let ?w0 = "SceneManager_ctor ShaderManager [] []"
  have h1: "list_all (\<lambda>(filename, tg). decodable ((\<lambda>f. Loaded 64 64 3) filename)) ?rs"
    by (simp add: list_all_length)
  have h2: "registry_ok ?w0" by (rule registry_ok_ctor)
  have h3: "m_loadedTextures ?w0 + int (length ?rs) \<le> 16" by (simp add: SceneManager_ctor_def)
  from CreateGLTexture_calls_success [OF h1 h2 h3]
  obtain w where w:
    "CreateGLTexture_calls (\<lambda>f. Loaded 64 64 3) ?rs ?w0 = Inr (replicate (length ?rs) True, w)"
    "registry_ok w" "m_loadedTextures w = m_loadedTextures ?w0 + int (length ?rs)"
    by blast
  have n: "m_loadedTextures w = 16" using w(3) by (simp add: SceneManager_ctor_def)
  have l: "length (m_textureIDs w) = 16" using w(2) by (simp add: registry_ok_def)
  have d: "decodable ((\<lambda>f. Loaded 64 64 3) ''textures/red.jpg'')" by simp
  from w(1) have c:
    "CreateGLTexture_calls (\<lambda>f. Loaded 64 64 3) ?rs ?w0 = Inr (replicate 16 True, w)"
    by simp
  have f: "CreateGLTexture (\<lambda>f. Loaded 64 64 3) ''textures/red.jpg'' ''redTexture'' w =
      Inl ArrayOutOfBounds"
    by (rule CreateGLTexture_full [OF d l n])
  show ?thesis
    using c n f by (intro exI [of _ w] conjI)
qed

section \<open>Teardown\<close>

text \<open>The loop of \<^verbatim>\<open>DestroyGLTextures\<close> returns on a well-formed registry; no
  texture name leaves the graphics context.\<close>

lemma DestroyGLTextures_loop_effects:
  "length (m_textureIDs w) = 16 \<Longrightarrow> m_loadedTextures w \<le> 16 \<Longrightarrow> 0 \<le> i \<Longrightarrow>
   \<exists>w'. DestroyGLTextures_loop i w = Inr w' \<and> length (m_textureIDs w') = 16 \<and>
        m_loadedTextures w' = m_loadedTextures w \<and>
        set (gl_textures w) \<subseteq> set (gl_textures w') \<and>
        m_pShaderManager w' = m_pShaderManager w \<and>
        m_objectMaterials w' = m_objectMaterials w"
proof (induction i w rule: DestroyGLTextures_loop.induct)
  case (1 i w)
  show ?case
  proof (cases "i < m_loadedTextures w")
    case True
    with 1(2,3,4) have inb: "0 \<le> i \<and> i < int (length (m_textureIDs w))" by simp
    let ?name = "glGenTextures_name (gl_textures w)"
    let ?w1 = "w\<lparr>gl_textures := gl_textures w @ [?name],
                       calls := calls w @ [GlGenTextures ?name],
                       m_textureIDs :=
                         (m_textureIDs w)[nat i := (m_textureIDs w ! nat i)\<lparr>ID := ?name\<rparr>]\<rparr>"
    let ?w2 = "?w1\<lparr>m_textureIDs :=
                         (m_textureIDs ?w1)[nat i := (m_textureIDs ?w1 ! nat i)\<lparr>ID := 0\<rparr>]\<rparr>"
    from 1(1) [OF True inb refl refl refl] 1(2,3,4)
    obtain w' where w': "DestroyGLTextures_loop (i + 1) ?w2 = Inr w'"
        "length (m_textureIDs w') = 16"
        "m_loadedTextures w' = m_loadedTextures ?w2"
        "set (gl_textures ?w2) \<subseteq> set (gl_textures w')"
        "m_pShaderManager w' = m_pShaderManager ?w2"
        "m_objectMaterials w' = m_objectMaterials ?w2"
      by auto
    have "DestroyGLTextures_loop i w = DestroyGLTextures_loop (i + 1) ?w2"
      using True inb by (subst DestroyGLTextures_loop.simps) (simp add: Let_def)
    with w' show ?thesis by auto
  next
    case False
    with 1(2) show ?thesis by (subst DestroyGLTextures_loop.simps) simp
  qed
qed

lemma FindTextureID_empty: "m_loadedTextures w = 0 \<Longrightarrow> FindTextureID tg w = Inr (- 1)"
  by (simp add: FindTextureID_def FindTextureID_loop.simps)

lemma FindTextureSlot_empty: "m_loadedTextures w = 0 \<Longrightarrow> FindTextureSlot tg w = Inr (- 1)"
  by (simp add: FindTextureSlot_def FindTextureSlot_loop.simps)

text \<open>
  What teardown does achieve: the count is reset to 0, both lookups then miss for
  every tag, and a second teardown changes nothing. What it does not: every texture
  name the graphics context held before is still held afterwards.
\<close>

lemma DestroyGLTextures_effects:
  assumes "registry_ok w"
  shows "\<exists>w'. DestroyGLTextures w = Inr w' \<and> m_loadedTextures w' = 0 \<and>
     FindTextureSlot tg w' = Inr (- 1) \<and> FindTextureID tg w' = Inr (- 1) \<and>
     DestroyGLTextures w' = Inr w' \<and>
     set (gl_textures w) \<subseteq> set (gl_textures w')"
proof -
  from DestroyGLTextures_loop_effects [of w 0] assms
  obtain w1 where w1: "DestroyGLTextures_loop 0 w = Inr w1"
    "set (gl_textures w) \<subseteq> set (gl_textures w1)"
    by (auto simp: registry_ok_def)
  let ?w' = "w1\<lparr>m_loadedTextures := 0\<rparr>"
  have a: "DestroyGLTextures w = Inr ?w'" by (simp add: DestroyGLTextures_def w1)
  have b: "DestroyGLTextures ?w' = Inr ?w'"
    by (simp add: DestroyGLTextures_def DestroyGLTextures_loop.simps)
  show ?thesis
    using a b w1(2)
    by (intro exI [of _ ?w']) (simp add: FindTextureID_empty FindTextureSlot_empty)
qed

text \<open>
  C3. The spec requires that teardown releases all hardware texture resources. The loop
  of the source calls \<^verbatim>\<open>glGenTextures\<close> where a release would call
  \<^verbatim>\<open>glDeleteTextures\<close>: after one texture is registered (name 1) and the registry
  is torn down, the graphics context still holds name 1 and holds a further name 2
  that teardown generated; the only call teardown made is that \<^verbatim>\<open>glGenTextures\<close>.
  The count is reset to 0, as the spec says.
\<close>

theorem DestroyGLTextures_generates_names:
  "\<exists>w1 w2. CreateGLTexture (\<lambda>f. Loaded 64 64 3) ''textures/wall.jpg'' ''wall''
        (SceneManager_ctor ShaderManager [] []) = Inr (True, w1) \<and>
      m_loadedTextures w1 = 1 \<and>
      ID (m_textureIDs w1 ! 0) = 1 \<and>
      gl_textures w1 = [1] \<and>
      DestroyGLTextures w1 = Inr w2 \<and>
      gl_textures w2 = [1, 2] \<and>
      calls w2 = calls w1 @ [GlGenTextures 2] \<and>
      m_loadedTextures w2 = 0"
  by (simp add: CreateGLTexture_def SceneManager_ctor_def Let_def glGenTextures_name_def
     DestroyGLTextures_def DestroyGLTextures_loop.simps)

section \<open>Material lookup\<close>

lemma FindMaterial_loop_miss:
  "tg \<notin> OBJECT_MATERIAL.tag ` set ms \<Longrightarrow> FindMaterial_loop ms tg i material = material"
proof (induction ms tg i material rule: FindMaterial_loop.induct)
  case (1 ms tg index material)
  show ?case
  proof (cases "0 \<le> index \<and> index < int (length ms)")
    case True
    then have "nat index < length ms" by linarith
    then have "ms ! nat index \<in> set ms" by (rule nth_mem)
    with 1(2) have ne: "OBJECT_MATERIAL.tag (ms ! nat index) \<noteq> tg" by blast
    show ?thesis
      using True ne 1 by (subst FindMaterial_loop.simps) simp
  next
    case False
    then show ?thesis by (subst FindMaterial_loop.simps) auto
  qed
qed

text \<open>A hit overwrites the three fields the caller pushes, whatever they held.\<close>

lemma FindMaterial_loop_hit:
  "tg \<in> OBJECT_MATERIAL.tag ` set (drop (nat i) ms) \<Longrightarrow> 0 \<le> i \<Longrightarrow>
   material_pushes (FindMaterial_loop ms tg i u) = material_pushes (FindMaterial_loop ms tg i u')"
proof (induction ms tg i u arbitrary: u' rule: FindMaterial_loop.induct)
  case (1 ms tg index material)
  show ?case
  proof (cases "index < int (length ms)")
    case True
    show ?thesis
    proof (cases "OBJECT_MATERIAL.tag (ms ! nat index) = tg")
      case hit: True
      then show ?thesis
        using True 1(3)
        by (subst FindMaterial_loop.simps, subst (2) FindMaterial_loop.simps)
           (simp add: material_pushes_def)
    next
      case False
      have d: "drop (nat index) ms = ms ! nat index # drop (nat (index + 1)) ms"
        using True 1(3) by (simp add: Cons_nth_drop_Suc [symmetric] nat_add_distrib)
      with 1(2) False have "tg \<in> OBJECT_MATERIAL.tag ` set (drop (nat (index + 1)) ms)"
        by auto
      from 1(1) [OF _ False this, of u'] True 1(3) False show ?thesis
        by (subst FindMaterial_loop.simps, subst (2) FindMaterial_loop.simps) simp
    qed
  next
    case False
    with 1(2,3) show ?thesis by simp
  qed
qed

text \<open>
  C6. On an empty registry \<^verbatim>\<open>FindMaterial\<close> returns \<^verbatim>\<open>false\<close>; on a non-empty
  registry in which no material carries the tag it returns \<^verbatim>\<open>true\<close>; in both cases
  the caller's material record is exactly what it was before the call.
\<close>

theorem FindMaterial_empty_or_miss:
  "(m_objectMaterials w = [] \<longrightarrow> FindMaterial tg material w = (False, material)) \<and>
   (m_objectMaterials w \<noteq> [] \<and> tg \<notin> OBJECT_MATERIAL.tag ` set (m_objectMaterials w) \<longrightarrow>
      FindMaterial tg material w = (True, material))"
  by (simp add: FindMaterial_def FindMaterial_loop_miss)

theorem FindMaterial_empty_or_miss_witness:
  "m_objectMaterials (SceneManager_ctor ShaderManager [] []) = [] \<and>
   FindMaterial ''matte'' stack_ones (SceneManager_ctor ShaderManager [] []) =
     (False, stack_ones) \<and>
   m_objectMaterials (DefineObjectMaterials (SceneManager_ctor ShaderManager [] [])) \<noteq> [] \<and>
   ''wood'' \<notin> OBJECT_MATERIAL.tag `
      set (m_objectMaterials (DefineObjectMaterials (SceneManager_ctor ShaderManager [] []))) \<and>
   FindMaterial ''wood'' stack_ones (DefineObjectMaterials (SceneManager_ctor ShaderManager [] [])) =
     (True, stack_ones)"
proof -
  let ?e = "SceneManager_ctor ShaderManager [] []"
  let ?w = "DefineObjectMaterials ?e"
  have h1: "m_objectMaterials ?e = []" by (simp add: SceneManager_ctor_def)
  have h2: "m_objectMaterials ?w \<noteq> []" by (simp add: DefineObjectMaterials_def)
  have h3: "''wood'' \<notin> OBJECT_MATERIAL.tag ` set (m_objectMaterials ?w)"
    by (simp add: DefineObjectMaterials_def SceneManager_ctor_def)
  have a: "FindMaterial ''matte'' stack_ones ?e = (False, stack_ones)"
    using FindMaterial_empty_or_miss [of ?e "''matte''" stack_ones] h1 by simp
  have b: "FindMaterial ''wood'' stack_ones ?w = (True, stack_ones)"
    using FindMaterial_empty_or_miss [of ?w "''wood''" stack_ones] h2 h3 by simp
  from h1 a h2 h3 b show ?thesis by (intro conjI)
qed

lemma SetShaderMaterial_miss:
  assumes "m_objectMaterials w \<noteq> []"
    "tg \<notin> OBJECT_MATERIAL.tag ` set (m_objectMaterials w)"
    "m_pShaderManager w \<noteq> NULL"
  shows "SetShaderMaterial uninit tg w =
    Inr (w\<lparr>calls := calls w @
           [SetVec3Value ''material.diffuseColor'' (diffuseColor uninit),
            SetVec3Value ''material.specularColor'' (specularColor uninit),
            SetFloatValue ''material.shininess'' (shininess uninit)]\<rparr>)"
  using assms by (simp add: SetShaderMaterial_def FindMaterial_def FindMaterial_loop_miss)

text \<open>
  C2. The spec requires that \<^verbatim>\<open>SetShaderMaterial\<close> writes no uniform when the tag matches
  no material of a non-empty registry. With the four materials of
  \<^verbatim>\<open>DefineObjectMaterials\<close> registered, the call for the unregistered tag
  \<^verbatim>\<open>"wood"\<close> writes all three material uniforms, with the values its local
  material held before it was ever assigned.
\<close>

theorem SetShaderMaterial_miss_writes_uniforms:
  "SetShaderMaterial uninit ''wood''
     (DefineObjectMaterials (SceneManager_ctor ShaderManager [] [])) =
   Inr ((DefineObjectMaterials (SceneManager_ctor ShaderManager [] []))\<lparr>calls :=
          [SetVec3Value ''material.diffuseColor'' (diffuseColor uninit),
           SetVec3Value ''material.specularColor'' (specularColor uninit),
           SetFloatValue ''material.shininess'' (shininess uninit)]\<rparr>)"
proof -
  let ?w = "DefineObjectMaterials (SceneManager_ctor ShaderManager [] [])"
  have "m_objectMaterials ?w \<noteq> []"
    "''wood'' \<notin> OBJECT_MATERIAL.tag ` set (m_objectMaterials ?w)"
    "m_pShaderManager ?w \<noteq> NULL" "calls ?w = []"
    by (simp_all add: DefineObjectMaterials_def SceneManager_ctor_def)
  from SetShaderMaterial_miss [OF this(1,2,3), of uninit] this(4) show ?thesis by simp
qed

section \<open>The resource binder\<close>

text \<open>
  C9. With a shader manager present, \<^verbatim>\<open>SetShaderColor\<close> pushes \<^verbatim>\<open>bUseTexture\<close> as
  false (the integer 0) and then the RGBA colour as \<^verbatim>\<open>objectColor\<close>;
  \<^verbatim>\<open>SetShaderTexture\<close> pushes \<^verbatim>\<open>bUseTexture\<close> as true (the integer 1) and then, as
  \<^verbatim>\<open>objectTexture\<close>, the slot that \<^verbatim>\<open>FindTextureSlot\<close> returns for the tag, which is
  the sentinel \<open>-1\<close> when the tag is not registered.
\<close>

theorem SetShaderColor_SetShaderTexture_pushes:
  assumes "m_pShaderManager w \<noteq> NULL" "registry_ok w"
  shows "SetShaderColor r g b a w =
           Inr (w\<lparr>calls := calls w @
                  [SetIntValue ''bUseTexture'' 0, SetVec4Value ''objectColor'' (r, g, b, a)]\<rparr>) \<and>
         (\<exists>slot. FindTextureSlot textureTag w = Inr slot \<and>
            (textureTag \<notin> set (registered_tags w) \<longrightarrow> slot = - 1) \<and>
            SetShaderTexture textureTag w =
              Inr (w\<lparr>calls := calls w @
                     [SetIntValue ''bUseTexture'' 1,
                      SetSampler2DValue ''objectTexture'' slot]\<rparr>))"
  using assms
  by (simp add: SetShaderColor_def SetShaderTexture_def FindTextureSlot_spec first_index_miss
      Let_def)

theorem SetShaderColor_SetShaderTexture_pushes_witness:
  "m_pShaderManager (SceneManager_ctor ShaderManager [] []) \<noteq> NULL \<and>
   registry_ok (SceneManager_ctor ShaderManager [] []) \<and>
   calls (projr (SetShaderColor 0.1 0.2 0.3 0.8 (SceneManager_ctor ShaderManager [] []))) =
     [SetIntValue ''bUseTexture'' 0, SetVec4Value ''objectColor'' (0.1, 0.2, 0.3, 0.8)] \<and>
   calls (projr (SetShaderTexture ''wall'' (SceneManager_ctor ShaderManager [] []))) =
     [SetIntValue ''bUseTexture'' 1, SetSampler2DValue ''objectTexture'' (- 1)]"
proof -
  let ?w = "SceneManager_ctor ShaderManager [] []"
  have h1: "m_pShaderManager ?w \<noteq> NULL" by (simp add: SceneManager_ctor_def)
  have h2: "registry_ok ?w" by (rule registry_ok_ctor)
  have t: "''wall'' \<notin> set (registered_tags ?w)"
    by (simp add: registered_tags_def SceneManager_ctor_def)
  from SetShaderColor_SetShaderTexture_pushes [OF h1 h2, of "0.1" "0.2" "0.3" "0.8" "''wall''"] t
  have "calls (projr (SetShaderColor 0.1 0.2 0.3 0.8 ?w)) =
          [SetIntValue ''bUseTexture'' 0, SetVec4Value ''objectColor'' (0.1, 0.2, 0.3, 0.8)]"
    and "calls (projr (SetShaderTexture ''wall'' ?w)) =
          [SetIntValue ''bUseTexture'' 1, SetSampler2DValue ''objectTexture'' (- 1)]"
    by (auto simp: SceneManager_ctor_def)
  with h1 h2 show ?thesis by (intro conjI)
qed

text \<open>
  C10. When \<^verbatim>\<open>m_pShaderManager\<close> is null, \<^verbatim>\<open>SetTransformations\<close>,
  \<^verbatim>\<open>SetShaderColor\<close>, \<^verbatim>\<open>SetShaderTexture\<close> and \<^verbatim>\<open>SetTextureUVScale\<close> return
  normally and leave the whole state, the log of calls included, as it was: no
  uniform is written and nothing is called through the null pointer.
\<close>

theorem null_shader_manager_no_uniform_writes:
  assumes "m_pShaderManager w = NULL"
  shows "SetTransformations scaleXYZ rx ry rz positionXYZ w = Inr w \<and>
         SetShaderColor r g b a w = Inr w \<and>
         SetShaderTexture textureTag w = Inr w \<and>
         SetTextureUVScale u v w = Inr w"
  using assms
  by (simp add: SetTransformations_def SetShaderColor_def SetShaderTexture_def
      SetTextureUVScale_def)

theorem null_shader_manager_no_uniform_writes_witness:
  "m_pShaderManager (SceneManager_ctor NULL [] []) = NULL \<and>
   SetTransformations (2, 1, 1) 0 90 0 (1, 0, 0) (SceneManager_ctor NULL [] []) =
     Inr (SceneManager_ctor NULL [] []) \<and>
   SetShaderColor 0.1 0.2 0.3 0.8 (SceneManager_ctor NULL [] []) =
     Inr (SceneManager_ctor NULL [] []) \<and>
   SetShaderTexture ''wall'' (SceneManager_ctor NULL [] []) =
     Inr (SceneManager_ctor NULL [] []) \<and>
   SetTextureUVScale 2 2 (SceneManager_ctor NULL [] []) = Inr (SceneManager_ctor NULL [] [])"
proof -
  have h: "m_pShaderManager (SceneManager_ctor NULL [] []) = NULL"
    by (simp add: SceneManager_ctor_def)
  show ?thesis
    by (rule conjI, rule h, rule null_shader_manager_no_uniform_writes [OF h])
qed

section \<open>The transform composer\<close>

text \<open>About the coordinate axes, \<^verbatim>\<open>glm::rotate\<close> is the right-handed rotation of
  the spec; \<^verbatim>\<open>glm::scale\<close> and \<^verbatim>\<open>glm::translate\<close> are its scaling and
  translation.\<close>

lemma glm_rotate_axes:
  "glm_rotate a (1, 0, 0) = spec_RotateX a"
  "glm_rotate a (0, 1, 0) = spec_RotateY a"
  "glm_rotate a (0, 0, 1) = spec_RotateZ a"
  by (simp_all add: spec_RotateX_def spec_RotateY_def spec_RotateZ_def Let_def)

lemma glm_scale_translate:
  "glm_scale s = spec_Scale s" "glm_translate t = spec_Translate t"
  by (cases s; simp add: spec_Scale_def; fail) (cases t; simp add: spec_Translate_def)

lemma modelView_eq:
  "modelView s rx ry rz t =
     mat4_mul (mat4_mul (mat4_mul (mat4_mul (spec_Translate t) (spec_RotateZ (rz * pi / 180)))
       (spec_RotateY (ry * pi / 180))) (spec_RotateX (rx * pi / 180))) (spec_Scale s)"
  by (simp add: modelView_def glm_rotate_axes glm_scale_translate glm_radians_def
      del: glm_rotate.simps)

text \<open>Applying a product of matrices to a vector applies the right factor first.\<close>

lemma mat4_mul_vec4_assoc:
  "mat4_mul_vec4 (mat4_mul A B) v = mat4_mul_vec4 A (mat4_mul_vec4 B v)"
proof -
  obtain a0 a1 a2 a3 where A: "A = (a0, a1, a2, a3)" by (cases A)
  obtain b0 b1 b2 b3 where B: "B = (b0, b1, b2, b3)" by (cases B)
  obtain x y z t where v: "v = (x, y, z, t)" by (cases v)
  show ?thesis
    by (cases a0; cases a1; cases a2; cases a3; cases b0; cases b1; cases b2; cases b3)
       (simp add: A B v algebra_simps)
qed

lemma modelView_regression_point:
  "mat4_mul_vec4 (modelView (2, 1, 1) 0 90 0 (1, 0, 0)) (1, 0, 0, 1) = (1, 0, - 2, 1)"
  by (simp add: modelView_def glm_radians_def)

text \<open>
  C5. With a shader manager present, \<^verbatim>\<open>SetTransformations\<close> pushes as \<^verbatim>\<open>model\<close>
  the matrix \<open>Translate(t) . RotateZ(rz) . RotateY(ry) . RotateX(rx) . Scale(s)\<close> of
  the spec, the angles converted from degrees to radians and the rotations
  right-handed. Applied to a point, that matrix scales first, then rotates about X,
  about Y and about Z, and translates last. For scale (2,1,1), rotation (0,90,0)
  degrees and translation (1,0,0) the object-space point (1,0,0) lands on (1,0,-2).
  The arithmetic is that of the real numbers.
\<close>

theorem SetTransformations_model_matrix:
  assumes "m_pShaderManager w \<noteq> NULL"
  shows "SetTransformations s rx ry rz t w =
      Inr (w\<lparr>calls := calls w @ [SetMat4Value ''model''
        (mat4_mul (mat4_mul (mat4_mul (mat4_mul (spec_Translate t)
            (spec_RotateZ (rz * pi / 180))) (spec_RotateY (ry * pi / 180)))
            (spec_RotateX (rx * pi / 180))) (spec_Scale s))]\<rparr>) \<and>
    mat4_mul_vec4 (modelView s rx ry rz t) p =
      mat4_mul_vec4 (spec_Translate t) (mat4_mul_vec4 (spec_RotateZ (rz * pi / 180))
        (mat4_mul_vec4 (spec_RotateY (ry * pi / 180))
          (mat4_mul_vec4 (spec_RotateX (rx * pi / 180)) (mat4_mul_vec4 (spec_Scale s) p)))) \<and>
    mat4_mul_vec4 (modelView (2, 1, 1) 0 90 0 (1, 0, 0)) (1, 0, 0, 1) = (1, 0, - 2, 1)"
  using assms
  by (simp add: SetTransformations_def modelView_regression_point)
     (simp add: modelView_eq mat4_mul_vec4_assoc)

theorem SetTransformations_model_matrix_witness:
  "m_pShaderManager (SceneManager_ctor ShaderManager [] []) \<noteq> NULL \<and>
   SetTransformations (2, 1, 1) 0 90 0 (1, 0, 0) (SceneManager_ctor ShaderManager [] []) =
     Inr ((SceneManager_ctor ShaderManager [] [])\<lparr>calls :=
       [SetMat4Value ''model'' ((0, 0, - 2, 0), (0, 1, 0, 0), (1, 0, 0, 0), (1, 0, 0, 1))]\<rparr>) \<and>
   mat4_mul_vec4 ((0, 0, - 2, 0), (0, 1, 0, 0), (1, 0, 0, 0), (1, 0, 0, 1)) (1, 0, 0, 1) =
     (1, 0, - 2, 1)"
proof -
  let ?w = "SceneManager_ctor ShaderManager [] []"
  have h: "m_pShaderManager ?w \<noteq> NULL" by (simp add: SceneManager_ctor_def)
  have c: "calls ?w = []" by (simp add: SceneManager_ctor_def)
  have m: "mat4_mul (mat4_mul (mat4_mul (mat4_mul (spec_Translate (1, 0, 0))
            (spec_RotateZ (0 * pi / 180))) (spec_RotateY (90 * pi / 180)))
            (spec_RotateX (0 * pi / 180))) (spec_Scale (2, 1, 1)) =
          ((0, 0, - 2, 0), (0, 1, 0, 0), (1, 0, 0, 0), (1, 0, 0, 1))"
    by (simp add: spec_Translate_def spec_RotateZ_def spec_RotateY_def spec_RotateX_def
        spec_Scale_def)
  from SetTransformations_model_matrix [OF h, of "(2, 1, 1)" 0 90 0 "(1, 0, 0)"]
  have "SetTransformations (2, 1, 1) 0 90 0 (1, 0, 0) ?w =
     Inr (?w\<lparr>calls :=
       [SetMat4Value ''model'' ((0, 0, - 2, 0), (0, 1, 0, 0), (1, 0, 0, 0), (1, 0, 0, 1))]\<rparr>)"
    unfolding m c by simp
  with h show ?thesis by simp
qed

section \<open>The render phase: what each statement adds to the log\<close>

lemma emits_run:
  assumes "emits f w cs"
  shows "f w = Inr (w\<lparr>calls := calls w @ cs\<rparr>)"
  using assms [unfolded emits_def, rule_format, of "calls w"] by simp

lemma emits_seq_Nil: "emits (seq []) w []"
  by (simp add: emits_def)

lemma emits_seq_Cons:
  "emits f w cs \<Longrightarrow> emits (seq fs) w ds \<Longrightarrow> emits (seq (f # fs)) w (cs @ ds)"
  by (simp add: emits_def)

lemma emits_SetTransformations:
  "emits (SetTransformations s rx ry rz t) w
     (if m_pShaderManager w \<noteq> NULL then [SetMat4Value ''model'' (modelView s rx ry rz t)]
      else [])"
  by (simp add: emits_def SetTransformations_def)

lemma emits_SetShaderColor:
  "emits (SetShaderColor r g b a) w
     (if m_pShaderManager w \<noteq> NULL
      then [SetIntValue ''bUseTexture'' 0, SetVec4Value ''objectColor'' (r, g, b, a)] else [])"
  by (simp add: emits_def SetShaderColor_def)

lemma registry_ok_calls [simp]: "registry_ok (w\<lparr>calls := c\<rparr>) = registry_ok w"
  by (simp add: registry_ok_def)

lemma registered_tags_calls [simp]: "registered_tags (w\<lparr>calls := c\<rparr>) = registered_tags w"
  by (simp add: registered_tags_def)

lemma emits_SetShaderTexture:
  "registry_ok w \<Longrightarrow>
   emits (SetShaderTexture tg) w
     (if m_pShaderManager w \<noteq> NULL
      then [SetIntValue ''bUseTexture'' 1,
            SetSampler2DValue ''objectTexture'' (first_index tg (registered_tags w) 0)]
      else [])"
  by (simp add: emits_def SetShaderTexture_def FindTextureSlot_spec Let_def)

lemma emits_draw: "emits (m_basicMeshes_draw c) w [c]"
  by (simp add: emits_def m_basicMeshes_draw_def)

lemma BindGLTextures_loop_emits:
  "registry_ok w \<Longrightarrow> 0 \<le> i \<Longrightarrow>
   \<exists>cs. \<forall>c. BindGLTextures_loop i (w\<lparr>calls := c\<rparr>) = Inr (w\<lparr>calls := c @ cs\<rparr>)"
proof (induction "nat (m_loadedTextures w - i)" arbitrary: i)
  case 0
  then have "\<not> i < m_loadedTextures w" by simp
  then have "\<forall>c. BindGLTextures_loop i (w\<lparr>calls := c\<rparr>) = Inr (w\<lparr>calls := c @ []\<rparr>)"
    by (subst BindGLTextures_loop.simps) simp
  then show ?case ..
next
  case (Suc n)
  then have lt: "i < m_loadedTextures w" and n: "n = nat (m_loadedTextures w - (i + 1))"
    by linarith+
  from Suc(1) [OF n Suc(3)] Suc(4)
  obtain cs where
    cs: "\<forall>c. BindGLTextures_loop (i + 1) (w\<lparr>calls := c\<rparr>) = Inr (w\<lparr>calls := c @ cs\<rparr>)"
    by auto
  let ?e = "[GlActiveTexture i, GlBindTexture (ID (m_textureIDs w ! nat i))]"
  have inb: "i < int (length (m_textureIDs w))"
    using lt Suc(3) by (simp add: registry_ok_def)
  have "BindGLTextures_loop i (w\<lparr>calls := c\<rparr>) = Inr (w\<lparr>calls := c @ (?e @ cs)\<rparr>)" for c
    using lt inb Suc(4) cs [rule_format, of "c @ ?e"]
    by (subst BindGLTextures_loop.simps) simp
  then show ?case by blast
qed

lemma emits_BindGLTextures: "registry_ok w \<Longrightarrow> \<exists>cs. emits BindGLTextures w cs"
  using BindGLTextures_loop_emits [of w 0] by (simp add: emits_def BindGLTextures_def)

text \<open>With a non-empty registry \<^verbatim>\<open>SetShaderMaterial\<close> always pushes: the fields of
  the first match, or on a miss what the local held.\<close>

lemma emits_SetShaderMaterial:
  "m_objectMaterials w \<noteq> [] \<Longrightarrow> m_pShaderManager w \<noteq> NULL \<Longrightarrow>
   emits (SetShaderMaterial uninit tg) w
     (material_pushes (FindMaterial_loop (m_objectMaterials w) tg 0 uninit))"
  by (simp add: emits_def SetShaderMaterial_def FindMaterial_def material_pushes_def)

lemma emits_SetShaderMaterial_empty:
  "m_objectMaterials w = [] \<Longrightarrow> emits (SetShaderMaterial uninit tg) w []"
  by (simp add: emits_def SetShaderMaterial_def)

lemma emits_SetShaderMaterial_resolved:
  assumes "m_objectMaterials w = [] \<or>
     (m_pShaderManager w \<noteq> NULL \<and> tg \<in> OBJECT_MATERIAL.tag ` set (m_objectMaterials w))"
  shows "emits (SetShaderMaterial uninit tg) w (material_calls w tg)"
proof (cases "m_objectMaterials w = []")
  case True
  then show ?thesis by (simp add: material_calls_def emits_SetShaderMaterial_empty)
next
  case False
  with assms have v: "m_pShaderManager w \<noteq> NULL"
      and h: "tg \<in> OBJECT_MATERIAL.tag ` set (drop (nat 0) (m_objectMaterials w))"
    by auto
  let ?z = "\<lparr> diffuseColor = (0, 0, 0), specularColor = (0, 0, 0), shininess = 0,
              tag = [] \<rparr>"
  have "material_pushes (FindMaterial_loop (m_objectMaterials w) tg 0 ?z) =
        material_pushes (FindMaterial_loop (m_objectMaterials w) tg 0 uninit)"
    by (rule FindMaterial_loop_hit [OF h]) simp
  then have "material_calls w tg =
      material_pushes (FindMaterial_loop (m_objectMaterials w) tg 0 uninit)"
    using False by (simp add: material_calls_def)
  with emits_SetShaderMaterial [OF False v, of uninit tg] show ?thesis by simp
qed

text \<open>The whole of \<^verbatim>\<open>RenderScene\<close>: one list of calls, the same for every content
  of the uninitialised locals.\<close>

lemma RenderScene_emits:
  assumes "registry_ok w" "scene_materials_ok w"
  shows "\<exists>cs. \<forall>uninit. emits (RenderScene uninit) w cs"
proof -
  from emits_BindGLTextures [OF assms(1)] obtain bs where bs: "emits BindGLTextures w bs" ..
  note tex = emits_SetShaderTexture [OF assms(1)]
  have m: "emits (SetShaderMaterial u ''matte'') w (material_calls w ''matte'')"
          "emits (SetShaderMaterial u ''shinier'') w (material_calls w ''shinier'')"
          "emits (SetShaderMaterial u ''gold'') w (material_calls w ''gold'')"
          "emits (SetShaderMaterial u ''glass'') w (material_calls w ''glass'')" for u
    using assms(2) by (auto simp: scene_materials_ok_def intro!: emits_SetShaderMaterial_resolved)
  show ?thesis
    unfolding RenderScene_def
    apply (rule exI, rule allI)
    apply (rule emits_seq_Cons emits_seq_Nil bs tex m emits_SetTransformations
        emits_SetShaderColor emits_draw)+
    done
qed

section \<open>What setup establishes\<close>

text \<open>With a free slot every call returns, whatever the decoder gives, and keeps the
  registry well formed.\<close>

lemma CreateGLTexture_total:
  assumes "registry_ok w" "m_loadedTextures w < 16"
  shows "\<exists>b w'. CreateGLTexture stbi_load filename tg w = Inr (b, w') \<and> registry_ok w' \<and>
           m_loadedTextures w' \<le> m_loadedTextures w + 1 \<and>
           m_pShaderManager w' = m_pShaderManager w \<and>
           m_objectMaterials w' = m_objectMaterials w"
proof (cases "decodable (stbi_load filename)")
  case True
  from CreateGLTexture_success [of stbi_load filename w tg] True assms
  show ?thesis by auto
next
  case False
  then show ?thesis using assms
    by (cases "stbi_load filename") (auto simp: CreateGLTexture_def Let_def registry_ok_def)
qed

lemma CreateGLTexture_calls_total:
  assumes "registry_ok w" "m_loadedTextures w + int (length rs) \<le> 16"
  shows "\<exists>bs w'. CreateGLTexture_calls stbi_load rs w = Inr (bs, w') \<and> registry_ok w' \<and>
           m_pShaderManager w' = m_pShaderManager w \<and>
           m_objectMaterials w' = m_objectMaterials w"
  using assms
proof (induction rs arbitrary: w)
  case Nil
  then show ?case by simp
next
  case (Cons r rs)
  obtain filename tg where r: "r = (filename, tg)" by (cases r)
  from Cons.prems have lt: "m_loadedTextures w < 16" by simp
  from CreateGLTexture_total [OF Cons.prems(1) lt, of stbi_load filename tg]
  obtain b w1 where w1: "CreateGLTexture stbi_load filename tg w = Inr (b, w1)"
    "registry_ok w1" "m_loadedTextures w1 \<le> m_loadedTextures w + 1"
    "m_pShaderManager w1 = m_pShaderManager w" "m_objectMaterials w1 = m_objectMaterials w"
    by blast
  from Cons.prems(2) w1(3) have "m_loadedTextures w1 + int (length rs) \<le> 16" by simp
  from Cons.IH [OF w1(2) this]
  obtain bs w' where w': "CreateGLTexture_calls stbi_load rs w1 = Inr (bs, w')"
    "registry_ok w'" "m_pShaderManager w' = m_pShaderManager w1"
    "m_objectMaterials w' = m_objectMaterials w1"
    by blast
  show ?case using w1 w' by (simp add: r)
qed

text \<open>A call that returns leaves a well-formed registry, the shader manager and the
  materials as they were.\<close>

lemma CreateGLTexture_Inr:
  assumes "registry_ok w" "CreateGLTexture stbi_load filename tg w = Inr (b, w')"
  shows "registry_ok w' \<and> m_pShaderManager w' = m_pShaderManager w \<and>
         m_objectMaterials w' = m_objectMaterials w"
  using assms
  by (cases "stbi_load filename")
     (auto simp: CreateGLTexture_def Let_def registry_ok_def split: if_splits)

lemma CreateGLTexture_calls_Inr:
  assumes "registry_ok w" "CreateGLTexture_calls stbi_load rs w = Inr (bs, w')"
  shows "registry_ok w' \<and> m_pShaderManager w' = m_pShaderManager w \<and>
         m_objectMaterials w' = m_objectMaterials w"
  using assms
proof (induction rs arbitrary: w bs)
  case Nil
  then show ?case by simp
next
  case (Cons r rs)
  obtain filename tg where r: "r = (filename, tg)" by (cases r)
  from Cons.prems(2) obtain b w1 bs' where
    s: "CreateGLTexture stbi_load filename tg w = Inr (b, w1)"
       "CreateGLTexture_calls stbi_load rs w1 = Inr (bs', w')"
    by (auto simp: r split: sum.splits prod.splits)
  from CreateGLTexture_Inr [OF Cons.prems(1) s(1)] Cons.IH [OF _ s(2)]
  show ?case by simp
qed

lemma BindGLTextures_Inr:
  assumes "registry_ok w"
  shows "\<exists>cs. BindGLTextures w = Inr (w\<lparr>calls := calls w @ cs\<rparr>)"
proof -
  from emits_BindGLTextures [OF assms] obtain cs where "emits BindGLTextures w cs" ..
  then have "BindGLTextures w = Inr (w\<lparr>calls := calls w @ cs\<rparr>)" by (rule emits_run)
  then show ?thesis ..
qed

lemma LoadSceneTextures_Inr:
  assumes "registry_ok w" "LoadSceneTextures stbi_load w = Inr w'"
  shows "registry_ok w' \<and> m_pShaderManager w' = m_pShaderManager w \<and>
         m_objectMaterials w' = m_objectMaterials w"
proof -
  from assms(2) obtain bs w1 where
    s: "CreateGLTexture_calls stbi_load
          [(''textures/plane.jpg'', ''planeTexture''),
           (''textures/red.jpg'', ''redTexture''),
           (''textures/circular-gold.jpg'', ''midTexture''),
           (''textures/seamless-gold.jpg'', ''topTexture''),
           (''textures/cork.jpg'', ''corkTexture''),
           (''textures/gold.jpg'', ''cupTexture''),
           (''textures/stone.jpg'', ''bottleTexture''),
           (''textures/copper.jpg'', ''knobTexture''),
           (''textures/white.jpg'', ''whiteTexture''),
           (''textures/white2.jpg'', ''lidTexture''),
           (''textures/grip.jpg'', ''gripTexture''),
           (''textures/pot1.jpg'', ''pot1''),
           (''textures/pot2.jpg'', ''pot2''),
           (''textures/wall.jpg'', ''wall'')] w = Inr (bs, w1)"
       "BindGLTextures w1 = Inr w'"
    unfolding LoadSceneTextures_def by (auto split: sum.splits prod.splits)
  note a = CreateGLTexture_calls_Inr [OF assms(1) s(1)]
  from BindGLTextures_Inr [of w1] a s(2) obtain cs where "w' = w1\<lparr>calls := calls w1 @ cs\<rparr>"
    by auto
  with a show ?thesis by simp
qed

lemma LoadSceneTextures_total:
  assumes "registry_ok w" "m_loadedTextures w \<le> 2"
  shows "\<exists>w'. LoadSceneTextures stbi_load w = Inr w'"
proof -
  let ?rs = "[(''textures/plane.jpg'', ''planeTexture''),
           (''textures/red.jpg'', ''redTexture''),
           (''textures/circular-gold.jpg'', ''midTexture''),
           (''textures/seamless-gold.jpg'', ''topTexture''),
           (''textures/cork.jpg'', ''corkTexture''),
           (''textures/gold.jpg'', ''cupTexture''),
           (''textures/stone.jpg'', ''bottleTexture''),
           (''textures/copper.jpg'', ''knobTexture''),
           (''textures/white.jpg'', ''whiteTexture''),
           (''textures/white2.jpg'', ''lidTexture''),
           (''textures/grip.jpg'', ''gripTexture''),
           (''textures/pot1.jpg'', ''pot1''),
           (''textures/pot2.jpg'', ''pot2''),
           (''textures/wall.jpg'', ''wall'')]"
  have "m_loadedTextures w + int (length ?rs) \<le> 16" using assms(2) by simp
  from CreateGLTexture_calls_total [OF assms(1) this, of stbi_load]
  obtain bs w1 where s: "CreateGLTexture_calls stbi_load ?rs w = Inr (bs, w1)" "registry_ok w1"
    by blast
  from BindGLTextures_Inr [OF s(2)] obtain cs where
    "BindGLTextures w1 = Inr (w1\<lparr>calls := calls w1 @ cs\<rparr>)" ..
  with s(1) show ?thesis by (simp add: LoadSceneTextures_def)
qed

text \<open>The rest of \<^verbatim>\<open>PrepareScene\<close> after the textures: it stops in
  \<^verbatim>\<open>SetupSceneLights\<close> when the shader manager is null, and otherwise defines the
  four materials and only adds to the log.\<close>

lemma PrepareScene_after_textures:
  "seq [(\<lambda>w. Inr (DefineObjectMaterials w)), SetupSceneLights,
       m_basicMeshes_load LoadPlaneMesh, m_basicMeshes_load LoadBoxMesh,
       m_basicMeshes_load LoadSphereMesh, m_basicMeshes_load LoadConeMesh,
       m_basicMeshes_load LoadCylinderMesh, m_basicMeshes_load LoadTaperedCylinderMesh,
       m_basicMeshes_load LoadPyramid4Mesh, m_basicMeshes_load LoadTaperedCylinderMesh] w =
   (if m_pShaderManager w = NULL then Inl NullDereference
    else Inr ((DefineObjectMaterials w)\<lparr>calls :=
      calls (projr (SetupSceneLights (DefineObjectMaterials w))) @
        [LoadPlaneMesh, LoadBoxMesh, LoadSphereMesh, LoadConeMesh, LoadCylinderMesh,
         LoadTaperedCylinderMesh, LoadPyramid4Mesh, LoadTaperedCylinderMesh]\<rparr>))"
  by (simp add: SetupSceneLights_def m_basicMeshes_load_def DefineObjectMaterials_def)

text \<open>
  What setup establishes: whenever \<^verbatim>\<open>PrepareScene\<close> returns, from the constructor's
  state or from any other well-formed one and with any decoder, the texture registry
  is well formed, the four material tags of the scene are defined and the shader
  manager is present. The constructor's state, with its empty material registry,
  meets the same two conditions, and \<^verbatim>\<open>RenderScene\<close> changes nothing but the log.
\<close>

lemma PrepareScene_establishes:
  assumes "registry_ok w" "PrepareScene stbi_load w = Inr w'"
  shows "registry_ok w' \<and> scene_materials_ok w'"
proof -
  from assms(2) obtain w1 where
    s: "LoadSceneTextures stbi_load w = Inr w1"
    by (auto simp: PrepareScene_def split: sum.splits)
  with assms(2) have r: "(if m_pShaderManager w1 = NULL then Inl NullDereference
    else Inr ((DefineObjectMaterials w1)\<lparr>calls :=
      calls (projr (SetupSceneLights (DefineObjectMaterials w1))) @
        [LoadPlaneMesh, LoadBoxMesh, LoadSphereMesh, LoadConeMesh, LoadCylinderMesh,
         LoadTaperedCylinderMesh, LoadPyramid4Mesh, LoadTaperedCylinderMesh]\<rparr>)) = Inr w'"
    unfolding PrepareScene_def seq.simps(2) [of "LoadSceneTextures stbi_load"]
    by (simp only: sum.case PrepareScene_after_textures)
  note a = LoadSceneTextures_Inr [OF assms(1) s]
  from r have p: "m_pShaderManager w1 \<noteq> NULL" by (auto split: if_splits)
  with r obtain cs where w': "w' = (DefineObjectMaterials w1)\<lparr>calls := cs\<rparr>" by auto
  have "registry_ok w'" using a by (simp add: w' registry_ok_def DefineObjectMaterials_def)
  moreover have "scene_materials_ok w'"
    using p by (simp add: w' scene_materials_ok_def DefineObjectMaterials_def)
  ultimately show ?thesis ..
qed

lemma scene_materials_ok_ctor: "scene_materials_ok (SceneManager_ctor p live cs)"
  by (simp add: scene_materials_ok_def SceneManager_ctor_def)

text \<open>From a state with at most two slots occupied and a shader manager present,
  setup returns, whatever the decoder gives.\<close>

lemma PrepareScene_total:
  assumes "registry_ok w" "m_loadedTextures w \<le> 2" "m_pShaderManager w \<noteq> NULL"
  shows "\<exists>w'. PrepareScene stbi_load w = Inr w'"
proof -
  from LoadSceneTextures_total [OF assms(1,2), of stbi_load]
  obtain w1 where s: "LoadSceneTextures stbi_load w = Inr w1" ..
  from LoadSceneTextures_Inr [OF assms(1) s] assms(3) have p: "m_pShaderManager w1 \<noteq> NULL"
    by simp
  show ?thesis
    unfolding PrepareScene_def seq.simps(2) [of "LoadSceneTextures stbi_load"]
    by (simp only: s sum.case PrepareScene_after_textures p if_False) blast
qed

section \<open>Replaying the render phase\<close>

text \<open>
  C8. In every state the render phase can find, two invocations of \<^verbatim>\<open>RenderScene\<close>
  with nothing between them produce identical ordered sequences of uniform pushes and
  draw invocations. The state is described by two conditions, which setup establishes
  (\<open>PrepareScene_establishes\<close>) and which the constructor's state meets as well: the
  texture registry is well formed, and the material registry is empty or defines each
  of the four material tags the scene uses, with the shader manager present. Under
  them \<^verbatim>\<open>RenderScene\<close> returns normally, changes nothing but the log of calls, and
  appends one and the same sequence of calls in the first and in the second
  invocation, whatever the uninitialised locals of \<^verbatim>\<open>SetShaderMaterial\<close> hold in
  either.
\<close>

theorem RenderScene_replay:
  assumes "registry_ok w" "scene_materials_ok w"
  shows "\<exists>cs. \<forall>uninit1 uninit2.
           RenderScene uninit1 w = Inr (w\<lparr>calls := calls w @ cs\<rparr>) \<and>
           RenderScene_calls uninit1 w = Some cs \<and>
           RenderScene_calls uninit2 (w\<lparr>calls := calls w @ cs\<rparr>) = Some cs"
proof -
  from RenderScene_emits [OF assms]
  obtain cs where cs: "\<forall>uninit. emits (RenderScene uninit) w cs" ..
  have a: "RenderScene u w = Inr (w\<lparr>calls := calls w @ cs\<rparr>)" for u
    using cs by (simp add: emits_run)
  have b: "RenderScene u (w\<lparr>calls := calls w @ cs\<rparr>) =
      Inr (w\<lparr>calls := (calls w @ cs) @ cs\<rparr>)" for u
    using cs [rule_format, of u] by (simp add: emits_def)
  have "RenderScene_calls u1 w = Some cs"
    "RenderScene_calls u2 (w\<lparr>calls := calls w @ cs\<rparr>) = Some cs" for u1 u2
    by (simp_all add: RenderScene_calls_def a b)
  with a show ?thesis by blast
qed

theorem RenderScene_replay_witness:
  "\<not> isl (PrepareScene
            (\<lambda>f. if f = ''textures/wall.jpg'' then LoadFailed else Loaded 64 64 3)
            (SceneManager_ctor ShaderManager [] [])) \<and>
   registry_ok (projr (PrepareScene
            (\<lambda>f. if f = ''textures/wall.jpg'' then LoadFailed else Loaded 64 64 3)
            (SceneManager_ctor ShaderManager [] []))) \<and>
   scene_materials_ok (projr (PrepareScene
            (\<lambda>f. if f = ''textures/wall.jpg'' then LoadFailed else Loaded 64 64 3)
            (SceneManager_ctor ShaderManager [] []))) \<and>
   (\<exists>cs. RenderScene (\<lambda>k. stack_zeros)
            (projr (PrepareScene
              (\<lambda>f. if f = ''textures/wall.jpg'' then LoadFailed else Loaded 64 64 3)
              (SceneManager_ctor ShaderManager [] []))) =
          Inr ((projr (PrepareScene
              (\<lambda>f. if f = ''textures/wall.jpg'' then LoadFailed else Loaded 64 64 3)
              (SceneManager_ctor ShaderManager [] [])))\<lparr>calls :=
            calls (projr (PrepareScene
              (\<lambda>f. if f = ''textures/wall.jpg'' then LoadFailed else Loaded 64 64 3)
              (SceneManager_ctor ShaderManager [] []))) @ cs\<rparr>) \<and>
        RenderScene_calls (\<lambda>k. stack_zeros)
            (projr (PrepareScene
              (\<lambda>f. if f = ''textures/wall.jpg'' then LoadFailed else Loaded 64 64 3)
              (SceneManager_ctor ShaderManager [] []))) = Some cs \<and>
        RenderScene_calls (\<lambda>k. stack_ones)
          ((projr (PrepareScene
              (\<lambda>f. if f = ''textures/wall.jpg'' then LoadFailed else Loaded 64 64 3)
              (SceneManager_ctor ShaderManager [] [])))\<lparr>calls :=
            calls (projr (PrepareScene
              (\<lambda>f. if f = ''textures/wall.jpg'' then LoadFailed else Loaded 64 64 3)
              (SceneManager_ctor ShaderManager [] []))) @ cs\<rparr>) =
          Some cs)"
proof -
  let ?d = "\<lambda>f. if f = ''textures/wall.jpg'' then LoadFailed else Loaded 64 64 3"
  let ?w0 = "SceneManager_ctor ShaderManager [] []"
  have r0: "registry_ok ?w0" by (rule registry_ok_ctor)
  have l0: "m_loadedTextures ?w0 \<le> 2" and p0: "m_pShaderManager ?w0 \<noteq> NULL"
    by (simp_all add: SceneManager_ctor_def)
  from PrepareScene_total [OF r0 l0 p0, of ?d]
  obtain w where e: "PrepareScene ?d ?w0 = Inr w" ..
  have pr: "projr (PrepareScene ?d ?w0) = w" by (simp only: e sum.sel)
  have ni: "\<not> isl (PrepareScene ?d ?w0)" by (simp only: e sum.disc simp_thms)
  from PrepareScene_establishes [OF r0 e] have h1: "registry_ok w" and h2: "scene_materials_ok w"
    by simp_all
  from RenderScene_replay [OF h1 h2]
  obtain cs where cs: "\<forall>uninit1 uninit2.
           RenderScene uninit1 w = Inr (w\<lparr>calls := calls w @ cs\<rparr>) \<and>
           RenderScene_calls uninit1 w = Some cs \<and>
           RenderScene_calls uninit2 (w\<lparr>calls := calls w @ cs\<rparr>) = Some cs" ..
  from cs [rule_format, of "\<lambda>k. stack_zeros" "\<lambda>k. stack_ones"]
  have ex: "\<exists>cs. RenderScene (\<lambda>k. stack_zeros) w = Inr (w\<lparr>calls := calls w @ cs\<rparr>) \<and>
        RenderScene_calls (\<lambda>k. stack_zeros) w = Some cs \<and>
        RenderScene_calls (\<lambda>k. stack_ones) (w\<lparr>calls := calls w @ cs\<rparr>) = Some cs"
    by (rule exI)
  show ?thesis
    unfolding pr using ni h1 h2 ex by (intro conjI)
qed

end
